theory Spec2Isabelle
  imports Main "HOL-Library.Word"
begin

section \<open>Objects of the resource store\<close>

text \<open>
  The copier component (\<^verbatim>\<open>pkg/controller/odooinstance/components/copier.go\<close>) works on two
  kinds of objects: the \<^verbatim>\<open>OdooInstance\<close> it reconciles and the \<^verbatim>\<open>batchv1.Job\<close> that copies the
  parent's database. Both embed the object metadata, as the Go structs do, so \<open>Name\<close> and
  \<open>Namespace\<close> read either of them.
\<close>

record OwnerReference =
  ref_APIVersion :: string
  ref_Kind :: string
  ref_Name :: string
  ref_UID :: string
  ref_Controller :: "bool option"
  ref_BlockOwnerDeletion :: "bool option"

record ObjectMeta =
  Name :: string
  Namespace :: string
  UID :: string
  Labels :: "string \<rightharpoonup> string"
  OwnerReferences :: "OwnerReference list"

text \<open>
  Modelled from the spec: the types of the status conditions of an instance, declared in the
  package \<^verbatim>\<open>pkg/apis/instance/v1beta1\<close>, which the sources at hand do not contain. The spec
  describes the conditions as a set with one condition per type, and the "Created" condition as
  a marker that two transitions write: job creation initiated, and job succeeded. The conditions
  are a map from the type to the marker; the last-transition time is left out, nothing reads it.
\<close>

datatype OdooInstanceStatusConditionType =
    OdooInstanceStatusConditionTypeCreated
  | OdooInstanceStatusConditionTypeOther string

datatype ConditionMarker =
    CopyJobCreationInitiated
  | CopyJobSucceeded
  | OtherMarker string

record OdooInstanceSpec =
  Hostname :: string
  ParentHostname :: "string option"

record OdooInstanceStatus =
  Conditions :: "OdooInstanceStatusConditionType \<rightharpoonup> ConditionMarker"

record OdooInstance = ObjectMeta +
  Spec :: OdooInstanceSpec
  InstanceStatus :: OdooInstanceStatus

text \<open>The counters of \<^verbatim>\<open>batchv1.JobStatus\<close> are \<^verbatim>\<open>int32\<close>: 32-bit words, compared signed.\<close>

record JobStatus =
  Succeeded :: "32 word"
  Failed :: "32 word"

record Job = ObjectMeta +
  Status :: JobStatus

datatype runtime_Object =
    OdooInstanceObject OdooInstance
  | JobObject Job
  | OtherObject string

text \<open>
  Modelled from the spec: \<^verbatim>\<open>GetStatusCondition\<close> of the absent package; the condition of the
  given type, nil when the instance has none.
\<close>

definition GetStatusCondition ::
  "OdooInstance \<Rightarrow> OdooInstanceStatusConditionType \<Rightarrow> ConditionMarker option" where
  "GetStatusCondition instance t = Conditions (InstanceStatus instance) t"

text \<open>
  Modelled from the spec: the write of a condition that the two setters below share; it
  replaces the condition of that type.
\<close>

definition SetStatusCondition ::
  "OdooInstanceStatusConditionType \<Rightarrow> ConditionMarker \<Rightarrow> OdooInstance \<Rightarrow> OdooInstance" where
  "SetStatusCondition t m instance =
     instance\<lparr>InstanceStatus :=
       (InstanceStatus instance)\<lparr>Conditions := (Conditions (InstanceStatus instance))(t \<mapsto> m)\<rparr>\<rparr>"

text \<open>
  Modelled from the spec: \<^verbatim>\<open>SetStatusConditionCopyJobCreationCreated\<close> of the absent package;
  the transition "copy job creation initiated" of the "Created" condition.
\<close>

definition SetStatusConditionCopyJobCreationCreated :: "OdooInstance \<Rightarrow> OdooInstance" where
  "SetStatusConditionCopyJobCreationCreated =
     SetStatusCondition OdooInstanceStatusConditionTypeCreated CopyJobCreationInitiated"

text \<open>
  Modelled from the spec: \<^verbatim>\<open>SetStatusConditionCopyJobSuccessCreated\<close> of the absent package;
  the transition "copy succeeded" of the "Created" condition.
\<close>

definition SetStatusConditionCopyJobSuccessCreated :: "OdooInstance \<Rightarrow> OdooInstance" where
  "SetStatusConditionCopyJobSuccessCreated =
     SetStatusCondition OdooInstanceStatusConditionTypeCreated CopyJobSucceeded"


section \<open>Errors, panics and results\<close>

datatype StatusReason =
    StatusReasonNotFound
  | StatusReasonAlreadyExists
  | StatusReasonOther string

text \<open>
  \<open>ErrorString\<close> is what \<^verbatim>\<open>errors.New\<close> of the standard library builds, \<open>StatusError\<close> an
  error of the API machinery with its reason, \<open>AlreadyOwnedError\<close> the refusal of
  \<^verbatim>\<open>SetControllerReference\<close>, \<open>OtherError\<close> anything else a collaborator returns.
\<close>

datatype error =
    ErrorString string
  | StatusError StatusReason
  | AlreadyOwnedError OwnerReference
  | OtherError string

fun IsNotFound :: "error \<Rightarrow> bool" where
  "IsNotFound (StatusError StatusReasonNotFound) = True"
| "IsNotFound _ = False"

datatype panic = TypeAssertionFailed | NilPointerDereference

datatype 'a outcome = Panic panic | Return 'a

text \<open>\<^verbatim>\<open>reconcile.Result\<close>; \<^verbatim>\<open>reconcile.Result{}\<close> is its zero value.\<close>

record Result =
  Requeue :: bool
  RequeueAfter :: int

definition Result_zero :: Result where
  "Result_zero = \<lparr>Requeue = False, RequeueAfter = 0\<rparr>"


section \<open>The component context and its collaborators\<close>

record ListOptions =
  opt_Namespace :: string
  LabelSelector :: "(string \<times> string) list"

definition InNamespace :: "string \<Rightarrow> ListOptions" where
  "InNamespace ns = \<lparr>opt_Namespace = ns, LabelSelector = []\<rparr>"

text \<open>
  \<^verbatim>\<open>ListOptions.MatchingLabels\<close> builds its selector with \<^verbatim>\<open>labels.SelectorFromSet\<close>, which
  turns each pair into an equality requirement and validates it: the key must be a qualified
  name (an optional DNS subdomain prefix, a slash, a name part), the value a valid label value
  (at most 63 characters; empty, or alphanumeric at both ends with dashes, underscores and dots
  in between). When any pair is refused, the selector that comes back is the empty one, and an
  empty selector selects every object of the namespace. The requirements are kept as a list of
  pairs; the order in which the library sorts them has no bearing on what they select.
\<close>

definition qnameChar :: "char \<Rightarrow> bool" where
  "qnameChar c =
     (c \<in> set ''abcdefghijklmnopqrstuvwxyz'' \<or> c \<in> set ''ABCDEFGHIJKLMNOPQRSTUVWXYZ''
      \<or> c \<in> set ''0123456789'')"

definition qnameExtChar :: "char \<Rightarrow> bool" where
  "qnameExtChar c = (qnameChar c \<or> c \<in> set ''-_.'')"

text \<open>The pattern \<^verbatim>\<open>([A-Za-z0-9][-A-Za-z0-9_.]*)?[A-Za-z0-9]\<close>, matched against the whole string.\<close>

definition qualifiedNameRegexp :: "string \<Rightarrow> bool" where
  "qualifiedNameRegexp s =
     (s \<noteq> [] \<and> qnameChar (hd s) \<and> qnameChar (last s) \<and> list_all qnameExtChar s)"

definition IsValidLabelValue :: "string \<Rightarrow> bool" where
  "IsValidLabelValue v = (length v \<le> 63 \<and> (v = [] \<or> qualifiedNameRegexp v))"

definition dns1123Char :: "char \<Rightarrow> bool" where
  "dns1123Char c = (c \<in> set ''abcdefghijklmnopqrstuvwxyz'' \<or> c \<in> set ''0123456789'')"

text \<open>The pattern \<^verbatim>\<open>[a-z0-9]([-a-z0-9]*[a-z0-9])?\<close>, matched against the whole string.\<close>

definition dns1123Label :: "string \<Rightarrow> bool" where
  "dns1123Label s =
     (s \<noteq> [] \<and> dns1123Char (hd s) \<and> dns1123Char (last s)
      \<and> list_all (\<lambda>c. dns1123Char c \<or> c = CHR ''-'') s)"

text \<open>\<^verbatim>\<open>strings.Split\<close> at a single character: the parts between the separators, empty ones kept.\<close>

fun strings_Split :: "char \<Rightarrow> string \<Rightarrow> string list" where
  "strings_Split sep [] = [[]]"
| "strings_Split sep (c # cs) =
     (if c = sep then [] # strings_Split sep cs
      else (case strings_Split sep cs of
              [] \<Rightarrow> [[c]]
            | p # ps \<Rightarrow> (c # p) # ps))"

definition IsDNS1123Subdomain :: "string \<Rightarrow> bool" where
  "IsDNS1123Subdomain s =
     (length s \<le> 253 \<and> list_all dns1123Label (strings_Split CHR ''.'' s))"

definition qualifiedNamePart :: "string \<Rightarrow> bool" where
  "qualifiedNamePart name = (name \<noteq> [] \<and> length name \<le> 63 \<and> qualifiedNameRegexp name)"

definition IsQualifiedName :: "string \<Rightarrow> bool" where
  "IsQualifiedName s =
     (case strings_Split CHR ''/'' s of
        [name] \<Rightarrow> qualifiedNamePart name
      | [prefix, name] \<Rightarrow>
          prefix \<noteq> [] \<and> IsDNS1123Subdomain prefix \<and> qualifiedNamePart name
      | _ \<Rightarrow> False)"

text \<open>\<^verbatim>\<open>labels.NewRequirement\<close> with the equality operator and one value returns no error.\<close>

definition NewRequirement_accepts :: "string \<times> string \<Rightarrow> bool" where
  "NewRequirement_accepts kv = (IsQualifiedName (fst kv) \<and> IsValidLabelValue (snd kv))"

definition SelectorFromSet :: "(string \<times> string) list \<Rightarrow> (string \<times> string) list" where
  "SelectorFromSet ls = (if list_all NewRequirement_accepts ls then ls else [])"

definition MatchingLabels :: "(string \<times> string) list \<Rightarrow> ListOptions \<Rightarrow> ListOptions" where
  "MatchingLabels lbls opts = opts\<lparr>LabelSelector := SelectorFromSet lbls\<rparr>"

datatype DeletionPropagation =
    DeletePropagationOrphan
  | DeletePropagationBackground
  | DeletePropagationForeground

text \<open>(namespace, name), the key of a job in the store.\<close>

type_synonym NamespacedName = "string \<times> string"

text \<open>The lines that \<^verbatim>\<open>glog\<close> is asked to write, one constructor per call site.\<close>

datatype log_line =
    DidNotFindParent string string string
  | CreatingCopierJob string string string string
  | CopierJobSucceeded string string
  | DeletingCopierJob string string string string
  | CopierJobFailed string string string string

datatype glog_level = Info | InfoV nat | Error

text \<open>
  What one pass does, in the order it does it: the calls to the store client and to the
  template renderer, the lines logged, and the writes to the "Created" condition of the
  instance in memory.
\<close>

datatype event =
    ClientList ListOptions
  | TemplateRendered string
  | ClientGet NamespacedName
  | ConditionSet OdooInstanceStatusConditionType ConditionMarker
  | ClientCreate Job
  | ClientDelete NamespacedName DeletionPropagation
  | Logged glog_level log_line

fun is_create :: "event \<Rightarrow> bool" where
  "is_create (ClientCreate _) = True"
| "is_create _ = False"

fun is_delete :: "event \<Rightarrow> bool" where
  "is_delete (ClientDelete _ _) = True"
| "is_delete _ = False"

fun is_condition_set :: "event \<Rightarrow> bool" where
  "is_condition_set (ConditionSet _ _) = True"
| "is_condition_set _ = False"

text \<open>
  \<^verbatim>\<open>components.ComponentContext\<close>: the object being reconciled (\<open>Top\<close>, which the component
  mutates in place), the scheme, and the embedded store client. The store behind the client is
  part of the state: the instances and the jobs it holds. \<open>Scheme\<close> is what the scheme answers
  for the type of the instance: its API version and kind, or an error when the type is not
  registered.
\<close>

record ComponentContext =
  Top :: runtime_Object
  Scheme :: "error + (string \<times> string)"
  instances :: "OdooInstance list"
  jobs :: "Job list"
  trace :: "event list"

text \<open>
  The collaborators are outside the component and outside the repository: the store client of
  \<^verbatim>\<open>controller-runtime\<close> and the template renderer of the component framework. A call of the
  store client fails with the fault set for it, if any (a store error, a stale read, or the
  effect of a concurrent writer), and otherwise acts on the store. The template renderer is a
  function of the object being reconciled, the template path and the extra data.
\<close>

record environment =
  list_fault :: "error option"
  get_fault :: "error option"
  create_fault :: "error option"
  delete_fault :: "error option"
  render :: "runtime_Object \<Rightarrow> string \<Rightarrow> (string \<rightharpoonup> string) \<Rightarrow> error + runtime_Object"

definition selects :: "ListOptions \<Rightarrow> OdooInstance \<Rightarrow> bool" where
  "selects opts x =
     (Namespace x = opt_Namespace opts
      \<and> list_all (\<lambda>(k, v). Labels x k = Some v) (LabelSelector opts))"

definition has_key :: "NamespacedName \<Rightarrow> Job \<Rightarrow> bool" where
  "has_key key j = (Namespace j = fst key \<and> Name j = snd key)"

text \<open>What the store answers to each call, from the fault set for the call and what it holds.\<close>

definition store_list ::
  "environment \<Rightarrow> OdooInstance list \<Rightarrow> ListOptions \<Rightarrow> error + OdooInstance list" where
  "store_list env held opts =
     (case list_fault env of
        Some err \<Rightarrow> Inl err
      | None \<Rightarrow> Inr (filter (selects opts) held))"

definition store_get :: "environment \<Rightarrow> Job list \<Rightarrow> NamespacedName \<Rightarrow> error + Job" where
  "store_get env held key =
     (case get_fault env of
        Some err \<Rightarrow> Inl err
      | None \<Rightarrow>
          (case find (has_key key) held of
             None \<Rightarrow> Inl (StatusError StatusReasonNotFound)
           | Some j \<Rightarrow> Inr j))"

definition store_create :: "environment \<Rightarrow> Job list \<Rightarrow> Job \<Rightarrow> error option" where
  "store_create env held job =
     (case create_fault env of
        Some err \<Rightarrow> Some err
      | None \<Rightarrow>
          if list_ex (has_key (Namespace job, Name job)) held
          then Some (StatusError StatusReasonAlreadyExists)
          else None)"

definition store_delete :: "environment \<Rightarrow> Job list \<Rightarrow> Job \<Rightarrow> error option" where
  "store_delete env held job =
     (case delete_fault env of
        Some err \<Rightarrow> Some err
      | None \<Rightarrow>
          if list_ex (has_key (Namespace job, Name job)) held
          then None
          else Some (StatusError StatusReasonNotFound))"

text \<open>
  The calls of the client: each records itself, returns the answer of the store, and a
  create or delete that succeeded changes what the store holds.
\<close>

definition client_List ::
  "environment \<Rightarrow> ComponentContext \<Rightarrow> ListOptions
     \<Rightarrow> (error + OdooInstance list) \<times> ComponentContext" where
  "client_List env ctx opts =
     (store_list env (instances ctx) opts, ctx\<lparr>trace := trace ctx @ [ClientList opts]\<rparr>)"

definition client_Get ::
  "environment \<Rightarrow> ComponentContext \<Rightarrow> NamespacedName \<Rightarrow> (error + Job) \<times> ComponentContext" where
  "client_Get env ctx key =
     (store_get env (jobs ctx) key, ctx\<lparr>trace := trace ctx @ [ClientGet key]\<rparr>)"

definition client_Create ::
  "environment \<Rightarrow> ComponentContext \<Rightarrow> Job \<Rightarrow> error option \<times> ComponentContext" where
  "client_Create env ctx job =
     (case store_create env (jobs ctx) job of
        Some err \<Rightarrow> (Some err, ctx\<lparr>trace := trace ctx @ [ClientCreate job]\<rparr>)
      | None \<Rightarrow>
          (None, ctx\<lparr>jobs := jobs ctx @ [job], trace := trace ctx @ [ClientCreate job]\<rparr>))"

definition client_Delete ::
  "environment \<Rightarrow> ComponentContext \<Rightarrow> Job \<Rightarrow> DeletionPropagation
     \<Rightarrow> error option \<times> ComponentContext" where
  "client_Delete env ctx job policy =
     (let key = (Namespace job, Name job)
      in case store_delete env (jobs ctx) job of
           Some err \<Rightarrow> (Some err, ctx\<lparr>trace := trace ctx @ [ClientDelete key policy]\<rparr>)
         | None \<Rightarrow>
             (None, ctx\<lparr>jobs := filter (\<lambda>j. \<not> has_key key j) (jobs ctx),
                          trace := trace ctx @ [ClientDelete key policy]\<rparr>))"

definition GetTemplate ::
  "environment \<Rightarrow> ComponentContext \<Rightarrow> string \<Rightarrow> (string \<rightharpoonup> string)
     \<Rightarrow> (error + runtime_Object) \<times> ComponentContext" where
  "GetTemplate env ctx path extra =
     (render env (Top ctx) path extra, ctx\<lparr>trace := trace ctx @ [TemplateRendered path]\<rparr>)"

definition glog :: "glog_level \<Rightarrow> log_line \<Rightarrow> ComponentContext \<Rightarrow> ComponentContext" where
  "glog lvl line ctx = ctx\<lparr>trace := trace ctx @ [Logged lvl line]\<rparr>"

text \<open>
  \<^verbatim>\<open>controllerutil.SetControllerReference\<close>: the reference to the owner replaces a reference
  of the object to the same owner or is appended; a reference to another owner that is a
  controller is refused. Two references are to the same object when API version, kind and name
  agree.
\<close>

definition referSameObject :: "OwnerReference \<Rightarrow> OwnerReference \<Rightarrow> bool" where
  "referSameObject a b =
     (ref_APIVersion a = ref_APIVersion b \<and> ref_Kind a = ref_Kind b \<and> ref_Name a = ref_Name b)"

definition NewControllerRef :: "OdooInstance \<Rightarrow> string \<times> string \<Rightarrow> OwnerReference" where
  "NewControllerRef owner gvk =
     \<lparr>ref_APIVersion = fst gvk, ref_Kind = snd gvk, ref_Name = Name owner, ref_UID = UID owner,
      ref_Controller = Some True, ref_BlockOwnerDeletion = Some True\<rparr>"

fun controller_loop ::
  "OwnerReference \<Rightarrow> OwnerReference list \<Rightarrow> nat \<Rightarrow> nat option \<Rightarrow> error + nat option" where
  "controller_loop ref [] i fi = Inr fi"
| "controller_loop ref (r # rs) i fi =
     (if referSameObject ref r then controller_loop ref rs (Suc i) (Some i)
      else if ref_Controller r = Some True then Inl (AlreadyOwnedError r)
      else controller_loop ref rs (Suc i) fi)"

definition SetControllerReference ::
  "OdooInstance \<Rightarrow> Job \<Rightarrow> error + (string \<times> string) \<Rightarrow> error + Job" where
  "SetControllerReference owner object scheme =
     (case scheme of
        Inl err \<Rightarrow> Inl err
      | Inr gvk \<Rightarrow>
          (let ref = NewControllerRef owner gvk;
               existingRefs = OwnerReferences object
           in case controller_loop ref existingRefs 0 None of
                Inl err \<Rightarrow> Inl err
              | Inr None \<Rightarrow> Inr (object\<lparr>OwnerReferences := existingRefs @ [ref]\<rparr>)
              | Inr (Some fi) \<Rightarrow> Inr (object\<lparr>OwnerReferences := existingRefs[fi := ref]\<rparr>)))"


section \<open>The copier component\<close>

record copierComponent =
  templatePath :: string

definition NewCopier :: "string \<Rightarrow> copierComponent" where
  "NewCopier path = \<lparr>templatePath = path\<rparr>"

text \<open>A Go map read: the zero value for a key that is absent.\<close>

definition label :: "OdooInstance \<Rightarrow> string \<Rightarrow> string" where
  "label instance k = (case Labels instance k of None \<Rightarrow> [] | Some v \<Rightarrow> v)"

definition IsReconcilable :: "ComponentContext \<Rightarrow> bool outcome" where
  "IsReconcilable ctx =
     (case Top ctx of
        OdooInstanceObject instance \<Rightarrow>
          if ParentHostname (Spec instance) = None then Return False
          else if GetStatusCondition instance OdooInstanceStatusConditionTypeCreated \<noteq> None
          then Return False
          else Return True
      | _ \<Rightarrow> Panic TypeAssertionFailed)"

definition Reconcile ::
  "environment \<Rightarrow> copierComponent \<Rightarrow> ComponentContext
     \<Rightarrow> (Result \<times> error option) outcome \<times> ComponentContext" where
  "Reconcile env copier ctx =
     (case Top ctx of
        OdooInstanceObject instance \<Rightarrow>
          (case ParentHostname (Spec instance) of
             None \<Rightarrow> (Panic NilPointerDereference, ctx)
           | Some parent \<Rightarrow>
               (let listoptions =
                      MatchingLabels
                        [(''cluster.odoo.io/name'', label instance ''cluster.odoo.io/name''),
                         (''instance.odoo.io/hostname'', parent)]
                        (InNamespace (Namespace instance));
                    (listed, ctx1) = client_List env ctx listoptions
                in case listed of
                     Inl err \<Rightarrow> (Return (Result_zero, Some err), ctx1)
                   | Inr parentinstances \<Rightarrow>
                       if length parentinstances > 1 then
                         (Return (Result_zero,
                            Some (ErrorString ''more than one parent instance found'')), ctx1)
                       else if length parentinstances < 1 then
                         (Return (Result_zero\<lparr>Requeue := True\<rparr>,
                            Some (ErrorString ''No parent instance found'')),
                          glog Info (DidNotFindParent (Namespace instance) (Name instance) parent)
                            ctx1)
                       else
                         (let extra =
                                [''FromDatabase'' \<mapsto> Hostname (Spec (parentinstances ! 0))];
                              (rendered, ctx2) = GetTemplate env ctx1 (templatePath copier) extra
                          in case rendered of
                               Inl err \<Rightarrow> (Return (Result_zero, Some err), ctx2)
                             | Inr (JobObject job) \<Rightarrow>
                                 (let (looked, ctx3) =
                                        client_Get env ctx2 (Namespace job, Name job)
                                  in case looked of
                                       Inl err \<Rightarrow>
                                         if IsNotFound err then
                                           (let ctx4 =
                                                  glog Info
                                                    (CreatingCopierJob (Namespace instance)
                                                       (Name instance) (Namespace job) (Name job))
                                                    ctx3;
                                                instance' =
                                                  SetStatusConditionCopyJobCreationCreated instance;
                                                ctx5 =
                                                  ctx4\<lparr>Top := OdooInstanceObject instance',
                                                    trace := trace ctx4 @
                                                      [ConditionSet
                                                         OdooInstanceStatusConditionTypeCreated
                                                         CopyJobCreationInitiated]\<rparr>
                                            in case SetControllerReference instance' job
                                                      (Scheme ctx5) of
                                                 Inl err \<Rightarrow> (Return (Result_zero, Some err), ctx5)
                                               | Inr job' \<Rightarrow>
                                                   (let (created, ctx6) =
                                                          client_Create env ctx5 job'
                                                    in case created of
                                                         Some err \<Rightarrow>
                                                           (Return
                                                              (Result_zero\<lparr>Requeue := True\<rparr>,
                                                               Some err), ctx6)
                                                       | None \<Rightarrow>
                                                           (Return (Result_zero, None), ctx6)))
                                         else (Return (Result_zero, Some err), ctx3)
                                     | Inr existing \<Rightarrow>
                                         (let (deleted, ctx4) =
                                                (if 0 <s Succeeded (Status existing) then
                                                   (let ctx3a =
                                                          glog Info
                                                            (CopierJobSucceeded (Namespace instance)
                                                               (Name instance))
                                                            ctx3;
                                                        instance' =
                                                          SetStatusConditionCopyJobSuccessCreated
                                                            instance;
                                                        ctx3b =
                                                          ctx3a\<lparr>Top := OdooInstanceObject instance',
                                                            trace := trace ctx3a @
                                                              [ConditionSet
                                                                 OdooInstanceStatusConditionTypeCreated
                                                                 CopyJobSucceeded]\<rparr>;
                                                        ctx3c =
                                                          glog (InfoV 2)
                                                            (DeletingCopierJob (Namespace instance)
                                                               (Name instance) (Namespace existing)
                                                               (Name existing))
                                                            ctx3b
                                                    in client_Delete env ctx3c existing
                                                         DeletePropagationBackground)
                                                 else (None, ctx3))
                                          in case deleted of
                                               Some err \<Rightarrow>
                                                 (Return (Result_zero\<lparr>Requeue := True\<rparr>,
                                                    Some err), ctx4)
                                             | None \<Rightarrow>
                                                 (let ctx5 =
                                                        (if 0 <s Failed (Status existing) then
                                                           glog Error
                                                             (CopierJobFailed (Namespace instance)
                                                                (Name instance) (Namespace existing)
                                                                (Name existing))
                                                             ctx4
                                                         else ctx4)
                                                  in (Return (Result_zero, None), ctx5))))
                             | Inr _ \<Rightarrow> (Panic TypeAssertionFailed, ctx2))))
      | _ \<Rightarrow> (Panic TypeAssertionFailed, ctx))"


section \<open>What a pass observes and does\<close>

text \<open>The events that a pass added to the trace it started from.\<close>

definition pass_events :: "ComponentContext \<Rightarrow> ComponentContext \<Rightarrow> event list" where
  "pass_events before after = drop (length (trace before)) (trace after)"

text \<open>
  The answer of the parent lookup of \<open>Reconcile\<close>: the instances of the namespace of the
  instance that carry its cluster label and the parent hostname as the hostname label, or every
  instance of the namespace when one of the two values is no valid label value.
\<close>

definition parents_found ::
  "environment \<Rightarrow> ComponentContext \<Rightarrow> OdooInstance \<Rightarrow> string \<Rightarrow> error + OdooInstance list" where
  "parents_found env ctx instance parent =
     store_list env (instances ctx)
       (MatchingLabels
          [(''cluster.odoo.io/name'', label instance ''cluster.odoo.io/name''),
           (''instance.odoo.io/hostname'', parent)]
          (InNamespace (Namespace instance)))"

text \<open>What a pass records up to and including the lookup of the job.\<close>

definition lookup_events :: "copierComponent \<Rightarrow> OdooInstance \<Rightarrow> string \<Rightarrow> Job \<Rightarrow> event list" where
  "lookup_events copier instance parent job =
     [ClientList
        (MatchingLabels
           [(''cluster.odoo.io/name'', label instance ''cluster.odoo.io/name''),
            (''instance.odoo.io/hostname'', parent)]
           (InNamespace (Namespace instance))),
      TemplateRendered (templatePath copier),
      ClientGet (Namespace job, Name job)]"

text \<open>The job names the instance as its controlling owner.\<close>

definition controlled_by :: "OdooInstance \<Rightarrow> Job \<Rightarrow> bool" where
  "controlled_by owner job =
     list_ex (\<lambda>r. ref_Name r = Name owner \<and> ref_UID r = UID owner \<and> ref_Controller r = Some True)
       (OwnerReferences job)"

text \<open>The condition and the store calls among the events, in their order.\<close>

definition mutations :: "event list \<Rightarrow> event list" where
  "mutations evs = filter (\<lambda>e. is_condition_set e \<or> is_create e \<or> is_delete e) evs"


section \<open>A concrete cluster\<close>

text \<open>
  The scenario of the spec: the instance \<^verbatim>\<open>child-1\<close> in the namespace \<^verbatim>\<open>ns\<close> with the parent
  hostname \<^verbatim>\<open>root-1\<close>, the root instance \<^verbatim>\<open>root-1\<close>, and the copy job \<^verbatim>\<open>copier-child-1\<close>.
\<close>

definition root_1 :: OdooInstance where
  "root_1 =
     \<lparr>Name = ''root-1'', Namespace = ''ns'', UID = ''uid-root-1'',
      Labels = [''cluster.odoo.io/name'' \<mapsto> ''main'', ''instance.odoo.io/hostname'' \<mapsto> ''root-1''],
      OwnerReferences = [],
      Spec = \<lparr>Hostname = ''root-1'', ParentHostname = None\<rparr>,
      InstanceStatus = \<lparr>Conditions = Map.empty\<rparr>\<rparr>"

definition child_1 :: OdooInstance where
  "child_1 =
     \<lparr>Name = ''child-1'', Namespace = ''ns'', UID = ''uid-child-1'',
      Labels = [''cluster.odoo.io/name'' \<mapsto> ''main'', ''instance.odoo.io/hostname'' \<mapsto> ''child-1''],
      OwnerReferences = [],
      Spec = \<lparr>Hostname = ''child-1'', ParentHostname = Some ''root-1''\<rparr>,
      InstanceStatus = \<lparr>Conditions = Map.empty\<rparr>\<rparr>"

definition copier_job :: "OwnerReference list \<Rightarrow> 32 word \<Rightarrow> 32 word \<Rightarrow> Job" where
  "copier_job refs s f =
     \<lparr>Name = ''copier-child-1'', Namespace = ''ns'', UID = [], Labels = Map.empty,
      OwnerReferences = refs, Status = \<lparr>Succeeded = s, Failed = f\<rparr>\<rparr>"

definition child_1_ref :: OwnerReference where
  "child_1_ref =
     \<lparr>ref_APIVersion = ''instance.odoo.io/v1beta1'', ref_Kind = ''OdooInstance'',
      ref_Name = ''child-1'', ref_UID = ''uid-child-1'',
      ref_Controller = Some True, ref_BlockOwnerDeletion = Some True\<rparr>"

definition foreign_ref :: OwnerReference where
  "foreign_ref =
     \<lparr>ref_APIVersion = ''batch/v1beta1'', ref_Kind = ''CronJob'',
      ref_Name = ''nightly-copy'', ref_UID = ''uid-nightly-copy'',
      ref_Controller = Some True, ref_BlockOwnerDeletion = None\<rparr>"

text \<open>A renderer that always yields the given job, and collaborators with the given faults.\<close>

definition renders ::
  "Job \<Rightarrow> runtime_Object \<Rightarrow> string \<Rightarrow> (string \<rightharpoonup> string) \<Rightarrow> error + runtime_Object" where
  "renders job obj path extra = Inr (JobObject job)"

definition collaborators :: "error option \<Rightarrow> error option \<Rightarrow> Job \<Rightarrow> environment" where
  "collaborators create_err delete_err job =
     \<lparr>list_fault = None, get_fault = None, create_fault = create_err,
      delete_fault = delete_err, render = renders job\<rparr>"

definition cluster :: "runtime_Object \<Rightarrow> OdooInstance list \<Rightarrow> Job list \<Rightarrow> ComponentContext" where
  "cluster obj held_instances held_jobs =
     \<lparr>Top = obj, Scheme = Inr (''instance.odoo.io/v1beta1'', ''OdooInstance''),
      instances = held_instances, jobs = held_jobs, trace = []\<rparr>"

text \<open>The cluster after the pass that created the copy job of \<^verbatim>\<open>child-1\<close>.\<close>

definition cluster_after_create :: ComponentContext where
  "cluster_after_create =
     \<lparr>Top = OdooInstanceObject (SetStatusConditionCopyJobCreationCreated child_1),
      Scheme = Inr (''instance.odoo.io/v1beta1'', ''OdooInstance''),
      instances = [root_1, child_1],
      jobs = [copier_job [child_1_ref] 0 0],
      trace =
        [ClientList
           \<lparr>opt_Namespace = ''ns'',
              LabelSelector =
                [(''cluster.odoo.io/name'', ''main''), (''instance.odoo.io/hostname'', ''root-1'')]\<rparr>,
         TemplateRendered ''copier/job.yml.tpl'',
         ClientGet (''ns'', ''copier-child-1''),
         Logged Info (CreatingCopierJob ''ns'' ''child-1'' ''ns'' ''copier-child-1''),
         ConditionSet OdooInstanceStatusConditionTypeCreated CopyJobCreationInitiated,
         ClientCreate (copier_job [child_1_ref] 0 0)]\<rparr>"

definition the_copier :: copierComponent where
  "the_copier = NewCopier ''copier/job.yml.tpl''"


section \<open>How a pass unfolds\<close>

lemmas pass_defs = Reconcile_def client_List_def client_Get_def client_Create_def client_Delete_def
  GetTemplate_def glog_def Let_def

lemmas cluster_defs = root_1_def child_1_def copier_job_def child_1_ref_def foreign_ref_def renders_def
  collaborators_def cluster_def the_copier_def NewCopier_def store_list_def store_get_def store_create_def
  store_delete_def selects_def has_key_def label_def InNamespace_def MatchingLabels_def
  SelectorFromSet_def NewRequirement_accepts_def IsQualifiedName_def qualifiedNamePart_def
  IsDNS1123Subdomain_def dns1123Label_def dns1123Char_def IsValidLabelValue_def
  qualifiedNameRegexp_def qnameExtChar_def qnameChar_def
  SetControllerReference_def NewControllerRef_def referSameObject_def
  SetStatusConditionCopyJobCreationCreated_def SetStatusConditionCopyJobSuccessCreated_def SetStatusCondition_def
  Result_zero_def

text \<open>A value that is no valid label value empties the selector, whatever the other pairs.\<close>

lemma MatchingLabels_invalid_value:
  "(k, v) \<in> set lbls \<Longrightarrow> \<not> IsValidLabelValue v \<Longrightarrow> LabelSelector (MatchingLabels lbls opts) = []"
  by (auto simp add: MatchingLabels_def SelectorFromSet_def NewRequirement_accepts_def list_all_iff)

lemma marked_meta [simp]:
  "Name (SetStatusCondition t m instance) = Name instance"
  "UID (SetStatusCondition t m instance) = UID instance"
  "Namespace (SetStatusCondition t m instance) = Namespace instance"
  "GetStatusCondition (SetStatusCondition t m instance) t = Some m"
  by (simp_all add: SetStatusCondition_def GetStatusCondition_def)

lemma label_marked [simp]: "label (SetStatusCondition t m instance) k = label instance k"
  by (simp add: label_def SetStatusCondition_def)

lemma spec_marked [simp]: "Spec (SetStatusCondition t m instance) = Spec instance"
  by (simp add: SetStatusCondition_def)

lemma singleton_length: "\<not> Suc 0 < length ps \<Longrightarrow> ps \<noteq> [] \<Longrightarrow> \<exists>p. ps = [p]"
  by (cases ps) auto

lemma find_snoc: "find P (xs @ [y]) = (case find P xs of None \<Rightarrow> (if P y then Some y else None) | Some x \<Rightarrow> Some x)"
  by (induction xs) simp_all

lemma controller_loop_index:
  "controller_loop ref rs i fi = Inr (Some k) \<Longrightarrow> fi = Some k \<or> (i \<le> k \<and> k < i + length rs)"
proof (induction rs arbitrary: i fi)
  case Nil
  then show ?case by simp
next
  case (Cons r rs)
  then show ?case by (fastforce split: if_splits)
qed

text \<open>
  When \<open>SetControllerReference\<close> succeeds, the object names the owner as its controller, and
  nothing but its owner references changed.
\<close>

lemma SetControllerReference_controlled:
  assumes "SetControllerReference owner object scheme = Inr object'"
  shows "controlled_by owner object' \<and> Name object' = Name object
         \<and> Namespace object' = Namespace object \<and> Status object' = Status object"
proof -
  from assms obtain gvk where gvk: "scheme = Inr gvk"
    by (cases scheme) (simp_all add: SetControllerReference_def)
  let ?ref = "NewControllerRef owner gvk"
  have ref: "ref_Name ?ref = Name owner \<and> ref_UID ?ref = UID owner \<and> ref_Controller ?ref = Some True"
    by (simp add: NewControllerRef_def)
  show ?thesis
  proof (cases "controller_loop ?ref (OwnerReferences object) 0 None")
    case (Inl e)
    with assms gvk show ?thesis by (simp add: SetControllerReference_def)
  next
    case (Inr fi)
    show ?thesis
    proof (cases fi)
      case None
      with Inr assms gvk have "object' = object\<lparr>OwnerReferences := OwnerReferences object @ [?ref]\<rparr>"
        by (simp add: SetControllerReference_def)
      with ref show ?thesis by (auto simp add: controlled_by_def list_ex_iff)
    next
      case (Some k)
      with Inr have "k < length (OwnerReferences object)"
        using controller_loop_index [of ?ref "OwnerReferences object" 0 None k] by simp
      then have "?ref \<in> set ((OwnerReferences object)[k := ?ref])"
        by (rule set_update_memI)
      moreover from Some Inr assms gvk
      have "object' = object\<lparr>OwnerReferences := (OwnerReferences object)[k := ?ref]\<rparr>"
        by (simp add: SetControllerReference_def)
      ultimately show ?thesis using ref by (auto simp add: controlled_by_def list_ex_iff)
    qed
  qed
qed

lemma store_get_after_create:
  assumes "get_fault env = None"
    and "store_get env held (Namespace job, Name job) = Inl err"
    and "Name job' = Name job" and "Namespace job' = Namespace job"
  shows "store_get env (held @ [job']) (Namespace job, Name job) = Inr job'"
  using assms by (simp add: store_get_def find_snoc has_key_def split: option.splits)

text \<open>
  The pass of an eligible instance with one parent and a rendered job that the store does not
  hold: the condition is marked, the owner reference set, and the job created, unless setting
  the reference fails. The state after the pass is given in full.
\<close>

lemma reconcile_not_found:
  assumes "Top ctx = OdooInstanceObject instance"
    and "ParentHostname (Spec instance) = Some parent"
    and "parents_found env ctx instance parent = Inr [p]"
    and "render env (OdooInstanceObject instance) (templatePath copier)
           [''FromDatabase'' \<mapsto> Hostname (Spec p)] = Inr (JobObject job)"
    and "store_get env (jobs ctx) (Namespace job, Name job) = Inl err"
    and "IsNotFound err"
  shows "Reconcile env copier ctx =
     (case SetControllerReference (SetStatusConditionCopyJobCreationCreated instance) job (Scheme ctx) of
        Inl e \<Rightarrow>
          (Return (Result_zero, Some e),
           ctx\<lparr>Top := OdooInstanceObject (SetStatusConditionCopyJobCreationCreated instance),
               trace := trace ctx @
                 lookup_events copier instance parent job @
 [
                  Logged Info (CreatingCopierJob (Namespace instance) (Name instance)
                    (Namespace job) (Name job)),
                  ConditionSet OdooInstanceStatusConditionTypeCreated CopyJobCreationInitiated]\<rparr>)
      | Inr job' \<Rightarrow>
          (case store_create env (jobs ctx) job' of
             Some e \<Rightarrow>
               (Return (Result_zero\<lparr>Requeue := True\<rparr>, Some e),
                ctx\<lparr>Top := OdooInstanceObject (SetStatusConditionCopyJobCreationCreated instance),
                    trace := trace ctx @
                      lookup_events copier instance parent job @
 [
                       Logged Info (CreatingCopierJob (Namespace instance) (Name instance)
                         (Namespace job) (Name job)),
                       ConditionSet OdooInstanceStatusConditionTypeCreated CopyJobCreationInitiated,
                       ClientCreate job']\<rparr>)
           | None \<Rightarrow>
               (Return (Result_zero, None),
                ctx\<lparr>Top := OdooInstanceObject (SetStatusConditionCopyJobCreationCreated instance),
                    jobs := jobs ctx @ [job'],
                    trace := trace ctx @
                      lookup_events copier instance parent job @
 [
                       Logged Info (CreatingCopierJob (Namespace instance) (Name instance)
                         (Namespace job) (Name job)),
                       ConditionSet OdooInstanceStatusConditionTypeCreated CopyJobCreationInitiated,
                       ClientCreate job']\<rparr>)))"
  using assms
  by (simp add: pass_defs parents_found_def lookup_events_def split: sum.split option.split)

text \<open>
  The pass of an eligible instance with one parent and a rendered job that the store holds:
  what is done depends on the counters of the job only.
\<close>

lemma reconcile_found:
  assumes "Top ctx = OdooInstanceObject instance"
    and "ParentHostname (Spec instance) = Some parent"
    and "parents_found env ctx instance parent = Inr [p]"
    and "render env (OdooInstanceObject instance) (templatePath copier)
           [''FromDatabase'' \<mapsto> Hostname (Spec p)] = Inr (JobObject job)"
    and "store_get env (jobs ctx) (Namespace job, Name job) = Inr existing"
  shows "Reconcile env copier ctx =
     (if 0 <s Succeeded (Status existing) then
        (case store_delete env (jobs ctx) existing of
           Some e \<Rightarrow>
             (Return (Result_zero\<lparr>Requeue := True\<rparr>, Some e),
              ctx\<lparr>Top := OdooInstanceObject (SetStatusConditionCopyJobSuccessCreated instance),
                  trace := trace ctx @
                    lookup_events copier instance parent job @
 [
                     Logged Info (CopierJobSucceeded (Namespace instance) (Name instance)),
                     ConditionSet OdooInstanceStatusConditionTypeCreated CopyJobSucceeded,
                     Logged (InfoV 2) (DeletingCopierJob (Namespace instance) (Name instance)
                       (Namespace existing) (Name existing)),
                     ClientDelete (Namespace existing, Name existing) DeletePropagationBackground]\<rparr>)
         | None \<Rightarrow>
             (Return (Result_zero, None),
              ctx\<lparr>Top := OdooInstanceObject (SetStatusConditionCopyJobSuccessCreated instance),
                  jobs := filter (\<lambda>j. \<not> has_key (Namespace existing, Name existing) j) (jobs ctx),
                  trace := trace ctx @
                    lookup_events copier instance parent job @
 [
                     Logged Info (CopierJobSucceeded (Namespace instance) (Name instance)),
                     ConditionSet OdooInstanceStatusConditionTypeCreated CopyJobSucceeded,
                     Logged (InfoV 2) (DeletingCopierJob (Namespace instance) (Name instance)
                       (Namespace existing) (Name existing)),
                     ClientDelete (Namespace existing, Name existing) DeletePropagationBackground] @
                    (if 0 <s Failed (Status existing)
                     then [Logged Error (CopierJobFailed (Namespace instance) (Name instance)
                             (Namespace existing) (Name existing))]
                     else [])\<rparr>))
      else
        (Return (Result_zero, None),
         ctx\<lparr>trace := trace ctx @
               lookup_events copier instance parent job @
               (if 0 <s Failed (Status existing)
                then [Logged Error (CopierJobFailed (Namespace instance) (Name instance)
                        (Namespace existing) (Name existing))]
                else [])\<rparr>))"
  using assms
  by (simp add: pass_defs parents_found_def lookup_events_def split: sum.split option.split)

text \<open>
  A pass that returned without error and called create went through the branch of the job
  that was not found.
\<close>

lemma reconcile_created_inv:
  assumes "Reconcile env copier ctx = (Return (Result_zero, None), ctx1)"
    and "list_ex is_create (pass_events ctx ctx1)"
  shows "\<exists>instance parent p job err job'.
           Top ctx = OdooInstanceObject instance
         \<and> ParentHostname (Spec instance) = Some parent
         \<and> parents_found env ctx instance parent = Inr [p]
         \<and> render env (OdooInstanceObject instance) (templatePath copier)
             [''FromDatabase'' \<mapsto> Hostname (Spec p)] = Inr (JobObject job)
         \<and> store_get env (jobs ctx) (Namespace job, Name job) = Inl err
         \<and> IsNotFound err
         \<and> SetControllerReference (SetStatusConditionCopyJobCreationCreated instance) job
             (Scheme ctx) = Inr job'
         \<and> store_create env (jobs ctx) job' = None"
  using assms
  apply (simp add: pass_defs parents_found_def pass_events_def Result_zero_def
      split: runtime_Object.splits option.splits sum.splits if_splits prod.splits)
  apply (auto dest!: singleton_length)
  done


section \<open>Eligibility\<close>

text \<open>
  C3. For an instance as the object of the context, \<open>IsReconcilable\<close> returns, and it returns
  true exactly when the instance has a parent hostname and its "Created" condition is not set:
  false without a parent hostname, false with the condition set whatever the parent hostname,
  true otherwise.
\<close>

theorem IsReconcilable_iff:
  "IsReconcilable (ctx\<lparr>Top := OdooInstanceObject instance\<rparr>) =
     Return (ParentHostname (Spec instance) \<noteq> None
             \<and> GetStatusCondition instance OdooInstanceStatusConditionTypeCreated = None)"
  by (simp add: IsReconcilable_def)

text \<open>
  \<^verbatim>\<open>child-1\<close> is eligible; it is not once the condition is set; \<^verbatim>\<open>root-1\<close> never is.
\<close>

theorem IsReconcilable_iff_witness:
  "IsReconcilable ((cluster (OdooInstanceObject root_1) [root_1, child_1] [])
       \<lparr>Top := OdooInstanceObject child_1\<rparr>) = Return True
   \<and> IsReconcilable ((cluster (OdooInstanceObject root_1) [root_1, child_1] [])
       \<lparr>Top := OdooInstanceObject (SetStatusConditionCopyJobCreationCreated child_1)\<rparr>) = Return False
   \<and> IsReconcilable ((cluster (OdooInstanceObject child_1) [root_1, child_1] [])
       \<lparr>Top := OdooInstanceObject root_1\<rparr>) = Return False"
  using IsReconcilable_iff [of child_1 "cluster (OdooInstanceObject root_1) [root_1, child_1] []"]
    IsReconcilable_iff [of "SetStatusConditionCopyJobCreationCreated child_1"
      "cluster (OdooInstanceObject root_1) [root_1, child_1] []"]
    IsReconcilable_iff [of root_1 "cluster (OdooInstanceObject child_1) [root_1, child_1] []"]
  by (simp add: child_1_def root_1_def GetStatusCondition_def
      SetStatusConditionCopyJobCreationCreated_def SetStatusCondition_def)


section \<open>Resolving the parent\<close>

text \<open>
  C5. When the parent lookup returns no instance, \<open>Reconcile\<close> returns a result with
  \<open>Requeue\<close> set together with the error "No parent instance found", and the pass calls
  neither create nor delete.
\<close>

theorem Reconcile_no_parent:
  assumes "Top ctx = OdooInstanceObject instance"
    and "ParentHostname (Spec instance) = Some parent"
    and "parents_found env ctx instance parent = Inr []"
  shows "fst (Reconcile env copier ctx) =
           Return (\<lparr>Requeue = True, RequeueAfter = 0\<rparr>, Some (ErrorString ''No parent instance found''))
         \<and> \<not> list_ex is_create (pass_events ctx (snd (Reconcile env copier ctx)))
         \<and> \<not> list_ex is_delete (pass_events ctx (snd (Reconcile env copier ctx)))
         \<and> jobs (snd (Reconcile env copier ctx)) = jobs ctx"
  using assms by (simp add: pass_defs parents_found_def Result_zero_def pass_events_def)

theorem Reconcile_no_parent_witness:
  "Top (cluster (OdooInstanceObject child_1) [child_1] []) = OdooInstanceObject child_1
   \<and> ParentHostname (Spec child_1) = Some ''root-1''
   \<and> parents_found (collaborators None None (copier_job [] 0 0))
        (cluster (OdooInstanceObject child_1) [child_1] []) child_1 ''root-1'' = Inr []
   \<and> fst (Reconcile (collaborators None None (copier_job [] 0 0)) the_copier
        (cluster (OdooInstanceObject child_1) [child_1] [])) =
        Return (\<lparr>Requeue = True, RequeueAfter = 0\<rparr>, Some (ErrorString ''No parent instance found''))
   \<and> \<not> list_ex is_create (pass_events (cluster (OdooInstanceObject child_1) [child_1] [])
        (snd (Reconcile (collaborators None None (copier_job [] 0 0)) the_copier
           (cluster (OdooInstanceObject child_1) [child_1] []))))
   \<and> \<not> list_ex is_delete (pass_events (cluster (OdooInstanceObject child_1) [child_1] [])
        (snd (Reconcile (collaborators None None (copier_job [] 0 0)) the_copier
           (cluster (OdooInstanceObject child_1) [child_1] []))))"
proof -
  let ?env = "collaborators None None (copier_job [] 0 0)"
  let ?ctx = "cluster (OdooInstanceObject child_1) [child_1] []"
  have top: "Top ?ctx = OdooInstanceObject child_1"
    by (simp add: cluster_def)
  have parent: "ParentHostname (Spec child_1) = Some ''root-1''"
    by (simp add: child_1_def)
  have found: "parents_found ?env ?ctx child_1 ''root-1'' = Inr []"
    by (simp add: parents_found_def cluster_defs)
  show ?thesis
    using Reconcile_no_parent [OF top parent found, of the_copier] top parent found
    by simp
qed

text \<open>
  C6. When the parent lookup returns two or more instances, \<open>Reconcile\<close> returns the error
  "more than one parent instance found" with a result that asks for no requeue, and the pass
  calls neither create nor delete.
\<close>

theorem Reconcile_conflicting_parents:
  assumes "Top ctx = OdooInstanceObject instance"
    and "ParentHostname (Spec instance) = Some parent"
    and "parents_found env ctx instance parent = Inr ps"
    and "2 \<le> length ps"
  shows "fst (Reconcile env copier ctx) =
           Return (\<lparr>Requeue = False, RequeueAfter = 0\<rparr>,
             Some (ErrorString ''more than one parent instance found''))
         \<and> \<not> list_ex is_create (pass_events ctx (snd (Reconcile env copier ctx)))
         \<and> \<not> list_ex is_delete (pass_events ctx (snd (Reconcile env copier ctx)))
         \<and> jobs (snd (Reconcile env copier ctx)) = jobs ctx"
  using assms by (simp add: pass_defs parents_found_def Result_zero_def pass_events_def)

theorem Reconcile_conflicting_parents_witness:
  "Top (cluster (OdooInstanceObject child_1) [root_1, child_1, root_1\<lparr>Name := ''root-1-restored''\<rparr>] []) =
        OdooInstanceObject child_1
   \<and> ParentHostname (Spec child_1) = Some ''root-1''
   \<and> parents_found (collaborators None None (copier_job [] 0 0))
        (cluster (OdooInstanceObject child_1) [root_1, child_1, root_1\<lparr>Name := ''root-1-restored''\<rparr>] [])
        child_1 ''root-1'' = Inr [root_1, root_1\<lparr>Name := ''root-1-restored''\<rparr>]
   \<and> fst (Reconcile (collaborators None None (copier_job [] 0 0)) the_copier
        (cluster (OdooInstanceObject child_1) [root_1, child_1, root_1\<lparr>Name := ''root-1-restored''\<rparr>] [])) =
        Return (\<lparr>Requeue = False, RequeueAfter = 0\<rparr>,
          Some (ErrorString ''more than one parent instance found''))
   \<and> \<not> list_ex is_create (pass_events
        (cluster (OdooInstanceObject child_1) [root_1, child_1, root_1\<lparr>Name := ''root-1-restored''\<rparr>] [])
        (snd (Reconcile (collaborators None None (copier_job [] 0 0)) the_copier
           (cluster (OdooInstanceObject child_1)
              [root_1, child_1, root_1\<lparr>Name := ''root-1-restored''\<rparr>] []))))
   \<and> \<not> list_ex is_delete (pass_events
        (cluster (OdooInstanceObject child_1) [root_1, child_1, root_1\<lparr>Name := ''root-1-restored''\<rparr>] [])
        (snd (Reconcile (collaborators None None (copier_job [] 0 0)) the_copier
           (cluster (OdooInstanceObject child_1)
              [root_1, child_1, root_1\<lparr>Name := ''root-1-restored''\<rparr>] []))))"
proof -
  let ?env = "collaborators None None (copier_job [] 0 0)"
  let ?ctx = "cluster (OdooInstanceObject child_1)
    [root_1, child_1, root_1\<lparr>Name := ''root-1-restored''\<rparr>] []"
  have top: "Top ?ctx = OdooInstanceObject child_1"
    by (simp add: cluster_def)
  have parent: "ParentHostname (Spec child_1) = Some ''root-1''"
    by (simp add: child_1_def)
  have found: "parents_found ?env ?ctx child_1 ''root-1'' =
      Inr [root_1, root_1\<lparr>Name := ''root-1-restored''\<rparr>]"
    by (simp add: parents_found_def cluster_defs)
  have two: "2 \<le> length [root_1, root_1\<lparr>Name := ''root-1-restored''\<rparr>]"
    by simp
  show ?thesis
    using Reconcile_conflicting_parents [OF top parent found two, of the_copier] top parent found
    by simp
qed


section \<open>Creating the copy job\<close>

text \<open>
  C1, amended. For an instance with exactly one matching parent, whose rendered job the lookup
  reports as not found, \<open>Reconcile\<close> marks the "Created" condition of the instance as
  initiated, and that mark is the first of the condition writes and store mutations of the
  pass, whether or not setting the controller reference on the job then succeeds. Provided it
  succeeds, the job names the instance as its controlling owner and exactly one create call
  follows the mark, for that job; without it no create call follows. When the create call
  succeeds, the result carries no error and no requeue, and the store holds exactly that one
  job more.
\<close>

theorem Reconcile_creates_job:
  assumes top: "Top ctx = OdooInstanceObject instance"
    and parent: "ParentHostname (Spec instance) = Some parent"
    and found: "parents_found env ctx instance parent = Inr [p]"
    and rendered: "render env (OdooInstanceObject instance) (templatePath copier)
           [''FromDatabase'' \<mapsto> Hostname (Spec p)] = Inr (JobObject job)"
    and looked: "store_get env (jobs ctx) (Namespace job, Name job) = Inl err"
    and not_found: "IsNotFound err"
  shows "Top (snd (Reconcile env copier ctx)) =
           OdooInstanceObject (SetStatusConditionCopyJobCreationCreated instance)
         \<and> GetStatusCondition (SetStatusConditionCopyJobCreationCreated instance)
             OdooInstanceStatusConditionTypeCreated = Some CopyJobCreationInitiated
         \<and> mutations (pass_events ctx (snd (Reconcile env copier ctx))) =
             ConditionSet OdooInstanceStatusConditionTypeCreated CopyJobCreationInitiated #
             (case SetControllerReference (SetStatusConditionCopyJobCreationCreated instance) job
                     (Scheme ctx) of
                Inl e \<Rightarrow> []
              | Inr created \<Rightarrow> [ClientCreate created])
         \<and> (SetControllerReference (SetStatusConditionCopyJobCreationCreated instance) job
               (Scheme ctx) = Inr job' \<longrightarrow>
              controlled_by instance job'
              \<and> mutations (pass_events ctx (snd (Reconcile env copier ctx))) =
                  [ConditionSet OdooInstanceStatusConditionTypeCreated CopyJobCreationInitiated,
                   ClientCreate job']
              \<and> (store_create env (jobs ctx) job' = None \<longrightarrow>
                   fst (Reconcile env copier ctx) =
                     Return (\<lparr>Requeue = False, RequeueAfter = 0\<rparr>, None)
                   \<and> jobs (snd (Reconcile env copier ctx)) = jobs ctx @ [job']))"
proof -
  note path = reconcile_not_found [OF top parent found rendered looked not_found]
  let ?marked = "SetStatusConditionCopyJobCreationCreated instance"
  have marked: "GetStatusCondition ?marked OdooInstanceStatusConditionTypeCreated =
      Some CopyJobCreationInitiated"
    by (simp add: SetStatusConditionCopyJobCreationCreated_def)
  have top': "Top (snd (Reconcile env copier ctx)) = OdooInstanceObject ?marked"
    by (simp add: path split: sum.split option.split)
  have muts: "mutations (pass_events ctx (snd (Reconcile env copier ctx))) =
      ConditionSet OdooInstanceStatusConditionTypeCreated CopyJobCreationInitiated #
      (case SetControllerReference ?marked job (Scheme ctx) of
         Inl e \<Rightarrow> []
       | Inr created \<Rightarrow> [ClientCreate created])"
    by (simp add: path pass_events_def mutations_def lookup_events_def
        split: sum.split option.split)
  have proviso: "SetControllerReference ?marked job (Scheme ctx) = Inr job' \<longrightarrow>
      controlled_by instance job'
      \<and> mutations (pass_events ctx (snd (Reconcile env copier ctx))) =
          [ConditionSet OdooInstanceStatusConditionTypeCreated CopyJobCreationInitiated,
           ClientCreate job']
      \<and> (store_create env (jobs ctx) job' = None \<longrightarrow>
           fst (Reconcile env copier ctx) =
             Return (\<lparr>Requeue = False, RequeueAfter = 0\<rparr>, None)
           \<and> jobs (snd (Reconcile env copier ctx)) = jobs ctx @ [job'])"
  proof
    assume owner: "SetControllerReference ?marked job (Scheme ctx) = Inr job'"
    have owned: "controlled_by instance job'"
      using SetControllerReference_controlled [OF owner]
      by (simp add: controlled_by_def SetStatusConditionCopyJobCreationCreated_def)
    have both: "mutations (pass_events ctx (snd (Reconcile env copier ctx))) =
        [ConditionSet OdooInstanceStatusConditionTypeCreated CopyJobCreationInitiated,
         ClientCreate job']"
      by (simp add: muts owner)
    have ok: "store_create env (jobs ctx) job' = None \<longrightarrow>
        fst (Reconcile env copier ctx) = Return (\<lparr>Requeue = False, RequeueAfter = 0\<rparr>, None)
        \<and> jobs (snd (Reconcile env copier ctx)) = jobs ctx @ [job']"
      by (simp add: path owner Result_zero_def)
    from owned both ok
    show "controlled_by instance job'
      \<and> mutations (pass_events ctx (snd (Reconcile env copier ctx))) =
          [ConditionSet OdooInstanceStatusConditionTypeCreated CopyJobCreationInitiated,
           ClientCreate job']
      \<and> (store_create env (jobs ctx) job' = None \<longrightarrow>
           fst (Reconcile env copier ctx) =
             Return (\<lparr>Requeue = False, RequeueAfter = 0\<rparr>, None)
           \<and> jobs (snd (Reconcile env copier ctx)) = jobs ctx @ [job'])"
      by blast
  qed
  from top' marked muts proviso show ?thesis by blast
qed

text \<open>
  The scenario of the spec: \<^verbatim>\<open>child-1\<close>, its parent \<^verbatim>\<open>root-1\<close> in the store, no job yet.
\<close>

theorem Reconcile_creates_job_witness:
  "Top (cluster (OdooInstanceObject child_1) [root_1, child_1] []) = OdooInstanceObject child_1
   \<and> ParentHostname (Spec child_1) = Some ''root-1''
   \<and> parents_found (collaborators None None (copier_job [] 0 0))
        (cluster (OdooInstanceObject child_1) [root_1, child_1] []) child_1 ''root-1'' = Inr [root_1]
   \<and> store_get (collaborators None None (copier_job [] 0 0)) [] (''ns'', ''copier-child-1'') =
        Inl (StatusError StatusReasonNotFound)
   \<and> SetControllerReference (SetStatusConditionCopyJobCreationCreated child_1) (copier_job [] 0 0)
        (Inr (''instance.odoo.io/v1beta1'', ''OdooInstance'')) = Inr (copier_job [child_1_ref] 0 0)
   \<and> store_create (collaborators None None (copier_job [] 0 0)) [] (copier_job [child_1_ref] 0 0) = None
   \<and> mutations (pass_events (cluster (OdooInstanceObject child_1) [root_1, child_1] [])
        (snd (Reconcile (collaborators None None (copier_job [] 0 0)) the_copier
           (cluster (OdooInstanceObject child_1) [root_1, child_1] [])))) =
        [ConditionSet OdooInstanceStatusConditionTypeCreated CopyJobCreationInitiated,
         ClientCreate (copier_job [child_1_ref] 0 0)]
   \<and> controlled_by child_1 (copier_job [child_1_ref] 0 0)
   \<and> fst (Reconcile (collaborators None None (copier_job [] 0 0)) the_copier
        (cluster (OdooInstanceObject child_1) [root_1, child_1] [])) =
        Return (\<lparr>Requeue = False, RequeueAfter = 0\<rparr>, None)
   \<and> jobs (snd (Reconcile (collaborators None None (copier_job [] 0 0)) the_copier
        (cluster (OdooInstanceObject child_1) [root_1, child_1] []))) = [copier_job [child_1_ref] 0 0]"
proof -
  let ?env = "collaborators None None (copier_job [] 0 0)"
  let ?ctx = "cluster (OdooInstanceObject child_1) [root_1, child_1] []"
  have top: "Top ?ctx = OdooInstanceObject child_1"
    by (simp add: cluster_def)
  have parent: "ParentHostname (Spec child_1) = Some ''root-1''"
    by (simp add: child_1_def)
  have found: "parents_found ?env ?ctx child_1 ''root-1'' = Inr [root_1]"
    by (simp add: parents_found_def cluster_defs)
  have rendered: "render ?env (OdooInstanceObject child_1) (templatePath the_copier)
      [''FromDatabase'' \<mapsto> Hostname (Spec root_1)] = Inr (JobObject (copier_job [] 0 0))"
    by (simp add: collaborators_def renders_def)
  have looked: "store_get ?env (jobs ?ctx) (Namespace (copier_job [] 0 0), Name (copier_job [] 0 0)) =
      Inl (StatusError StatusReasonNotFound)"
    by (simp add: cluster_defs)
  have key: "(Namespace (copier_job [] 0 0), Name (copier_job [] 0 0)) = (''ns'', ''copier-child-1'')"
    by (simp add: copier_job_def)
  have owner: "SetControllerReference (SetStatusConditionCopyJobCreationCreated child_1)
      (copier_job [] 0 0) (Scheme ?ctx) = Inr (copier_job [child_1_ref] 0 0)"
    by (simp add: cluster_defs)
  have scheme: "Scheme ?ctx = Inr (''instance.odoo.io/v1beta1'', ''OdooInstance'')"
    by (simp add: cluster_def)
  have created: "store_create ?env (jobs ?ctx) (copier_job [child_1_ref] 0 0) = None"
    by (simp add: cluster_defs)
  have held: "jobs ?ctx = []"
    by (simp add: cluster_def)
  show ?thesis
    using Reconcile_creates_job [OF top parent found rendered looked,
        of "copier_job [child_1_ref] 0 0"]
      top parent found looked key owner scheme created held
    by simp
qed

text \<open>
  C1 as stated, without the proviso, fails: the parent is unique and the lookup reports not
  found, but the rendered job is already controlled by another owner. Setting the controller
  reference is refused, and the pass returns that error without a create call. The condition
  has been marked all the same.
\<close>

theorem Reconcile_creates_job_counterexample:
  "Top (cluster (OdooInstanceObject child_1) [root_1, child_1] []) = OdooInstanceObject child_1
   \<and> ParentHostname (Spec child_1) = Some ''root-1''
   \<and> parents_found (collaborators None None (copier_job [foreign_ref] 0 0))
        (cluster (OdooInstanceObject child_1) [root_1, child_1] []) child_1 ''root-1'' = Inr [root_1]
   \<and> store_get (collaborators None None (copier_job [foreign_ref] 0 0)) [] (''ns'', ''copier-child-1'') =
        Inl (StatusError StatusReasonNotFound)
   \<and> fst (Reconcile (collaborators None None (copier_job [foreign_ref] 0 0)) the_copier
        (cluster (OdooInstanceObject child_1) [root_1, child_1] [])) =
        Return (\<lparr>Requeue = False, RequeueAfter = 0\<rparr>, Some (AlreadyOwnedError foreign_ref))
   \<and> \<not> list_ex is_create (pass_events (cluster (OdooInstanceObject child_1) [root_1, child_1] [])
        (snd (Reconcile (collaborators None None (copier_job [foreign_ref] 0 0)) the_copier
           (cluster (OdooInstanceObject child_1) [root_1, child_1] []))))
   \<and> jobs (snd (Reconcile (collaborators None None (copier_job [foreign_ref] 0 0)) the_copier
        (cluster (OdooInstanceObject child_1) [root_1, child_1] []))) = []
   \<and> Top (snd (Reconcile (collaborators None None (copier_job [foreign_ref] 0 0)) the_copier
        (cluster (OdooInstanceObject child_1) [root_1, child_1] []))) =
        OdooInstanceObject (SetStatusConditionCopyJobCreationCreated child_1)"
  by (simp add: pass_defs parents_found_def pass_events_def cluster_defs)

text \<open>
  C4. When the create call fails after the lookup reported not found, whatever the error (an
  "already exists" of a concurrent creation among them), \<open>Reconcile\<close> asks for a requeue: the
  result has \<open>Requeue\<close> set, and the error of the create call is handed back with it. The store
  is left as it was.
\<close>

theorem Reconcile_create_fails:
  assumes top: "Top ctx = OdooInstanceObject instance"
    and parent: "ParentHostname (Spec instance) = Some parent"
    and found: "parents_found env ctx instance parent = Inr [p]"
    and rendered: "render env (OdooInstanceObject instance) (templatePath copier)
           [''FromDatabase'' \<mapsto> Hostname (Spec p)] = Inr (JobObject job)"
    and looked: "store_get env (jobs ctx) (Namespace job, Name job) = Inl err"
    and not_found: "IsNotFound err"
    and owner: "SetControllerReference (SetStatusConditionCopyJobCreationCreated instance) job
           (Scheme ctx) = Inr job'"
    and create: "store_create env (jobs ctx) job' = Some e"
  shows "fst (Reconcile env copier ctx) = Return (\<lparr>Requeue = True, RequeueAfter = 0\<rparr>, Some e)
         \<and> jobs (snd (Reconcile env copier ctx)) = jobs ctx"
  by (simp add: reconcile_not_found [OF top parent found rendered looked not_found] owner create
      Result_zero_def)

text \<open>
  Another pass created the job between the lookup and the create call.
\<close>

theorem Reconcile_create_fails_witness:
  "parents_found (collaborators (Some (StatusError StatusReasonAlreadyExists)) None (copier_job [] 0 0))
        (cluster (OdooInstanceObject child_1) [root_1, child_1] []) child_1 ''root-1'' = Inr [root_1]
   \<and> store_get (collaborators (Some (StatusError StatusReasonAlreadyExists)) None (copier_job [] 0 0))
        [] (''ns'', ''copier-child-1'') = Inl (StatusError StatusReasonNotFound)
   \<and> store_create (collaborators (Some (StatusError StatusReasonAlreadyExists)) None (copier_job [] 0 0))
        [] (copier_job [child_1_ref] 0 0) = Some (StatusError StatusReasonAlreadyExists)
   \<and> fst (Reconcile (collaborators (Some (StatusError StatusReasonAlreadyExists)) None (copier_job [] 0 0))
        the_copier (cluster (OdooInstanceObject child_1) [root_1, child_1] [])) =
        Return (\<lparr>Requeue = True, RequeueAfter = 0\<rparr>, Some (StatusError StatusReasonAlreadyExists))
   \<and> jobs (snd (Reconcile (collaborators (Some (StatusError StatusReasonAlreadyExists)) None
        (copier_job [] 0 0)) the_copier (cluster (OdooInstanceObject child_1) [root_1, child_1] []))) = []"
proof -
  let ?env = "collaborators (Some (StatusError StatusReasonAlreadyExists)) None (copier_job [] 0 0)"
  let ?ctx = "cluster (OdooInstanceObject child_1) [root_1, child_1] []"
  have top: "Top ?ctx = OdooInstanceObject child_1"
    by (simp add: cluster_def)
  have parent: "ParentHostname (Spec child_1) = Some ''root-1''"
    by (simp add: child_1_def)
  have found: "parents_found ?env ?ctx child_1 ''root-1'' = Inr [root_1]"
    by (simp add: parents_found_def cluster_defs)
  have rendered: "render ?env (OdooInstanceObject child_1) (templatePath the_copier)
      [''FromDatabase'' \<mapsto> Hostname (Spec root_1)] = Inr (JobObject (copier_job [] 0 0))"
    by (simp add: collaborators_def renders_def)
  have looked: "store_get ?env (jobs ?ctx) (Namespace (copier_job [] 0 0), Name (copier_job [] 0 0)) =
      Inl (StatusError StatusReasonNotFound)"
    by (simp add: cluster_defs)
  have key: "(Namespace (copier_job [] 0 0), Name (copier_job [] 0 0)) = (''ns'', ''copier-child-1'')"
    by (simp add: copier_job_def)
  have owner: "SetControllerReference (SetStatusConditionCopyJobCreationCreated child_1)
      (copier_job [] 0 0) (Scheme ?ctx) = Inr (copier_job [child_1_ref] 0 0)"
    by (simp add: cluster_defs)
  have create: "store_create ?env (jobs ?ctx) (copier_job [child_1_ref] 0 0) =
      Some (StatusError StatusReasonAlreadyExists)"
    by (simp add: cluster_defs)
  have held: "jobs ?ctx = []"
    by (simp add: cluster_def)
  show ?thesis
    using Reconcile_create_fails [OF top parent found rendered looked _ owner create]
      found looked key create held
    by simp
qed


section \<open>An existing copy job\<close>

text \<open>
  C2. For an existing copy job with a success count above zero, \<open>Reconcile\<close> marks the
  "Created" condition as succeeded and then calls delete for the job with background
  propagation; these are the only condition write and store mutation of the pass, in this
  order. When the delete call fails the result has \<open>Requeue\<close> set and carries the error;
  otherwise the result carries no error and no requeue and the job has left the store.
\<close>

theorem Reconcile_job_succeeded:
  assumes top: "Top ctx = OdooInstanceObject instance"
    and parent: "ParentHostname (Spec instance) = Some parent"
    and found: "parents_found env ctx instance parent = Inr [p]"
    and rendered: "render env (OdooInstanceObject instance) (templatePath copier)
           [''FromDatabase'' \<mapsto> Hostname (Spec p)] = Inr (JobObject job)"
    and looked: "store_get env (jobs ctx) (Namespace job, Name job) = Inr existing"
    and succeeded: "0 <s Succeeded (Status existing)"
  shows "Top (snd (Reconcile env copier ctx)) =
           OdooInstanceObject (SetStatusConditionCopyJobSuccessCreated instance)
         \<and> GetStatusCondition (SetStatusConditionCopyJobSuccessCreated instance)
             OdooInstanceStatusConditionTypeCreated = Some CopyJobSucceeded
         \<and> mutations (pass_events ctx (snd (Reconcile env copier ctx))) =
             [ConditionSet OdooInstanceStatusConditionTypeCreated CopyJobSucceeded,
              ClientDelete (Namespace existing, Name existing) DeletePropagationBackground]
         \<and> fst (Reconcile env copier ctx) =
             (case store_delete env (jobs ctx) existing of
                Some e \<Rightarrow> Return (\<lparr>Requeue = True, RequeueAfter = 0\<rparr>, Some e)
              | None \<Rightarrow> Return (\<lparr>Requeue = False, RequeueAfter = 0\<rparr>, None))
         \<and> jobs (snd (Reconcile env copier ctx)) =
             (case store_delete env (jobs ctx) existing of
                Some e \<Rightarrow> jobs ctx
              | None \<Rightarrow> filter (\<lambda>j. \<not> has_key (Namespace existing, Name existing) j) (jobs ctx))"
proof -
  note path = reconcile_found [OF top parent found rendered looked]
  have top': "Top (snd (Reconcile env copier ctx)) =
      OdooInstanceObject (SetStatusConditionCopyJobSuccessCreated instance)"
    by (simp add: path succeeded split: option.split)
  have marked: "GetStatusCondition (SetStatusConditionCopyJobSuccessCreated instance)
      OdooInstanceStatusConditionTypeCreated = Some CopyJobSucceeded"
    by (simp add: SetStatusConditionCopyJobSuccessCreated_def)
  have muts: "mutations (pass_events ctx (snd (Reconcile env copier ctx))) =
      [ConditionSet OdooInstanceStatusConditionTypeCreated CopyJobSucceeded,
       ClientDelete (Namespace existing, Name existing) DeletePropagationBackground]"
    by (simp add: path succeeded pass_events_def mutations_def lookup_events_def split: option.split)
  have res: "fst (Reconcile env copier ctx) =
      (case store_delete env (jobs ctx) existing of
         Some e \<Rightarrow> Return (\<lparr>Requeue = True, RequeueAfter = 0\<rparr>, Some e)
       | None \<Rightarrow> Return (\<lparr>Requeue = False, RequeueAfter = 0\<rparr>, None))"
    by (simp add: path succeeded Result_zero_def split: option.split)
  have held: "jobs (snd (Reconcile env copier ctx)) =
      (case store_delete env (jobs ctx) existing of
         Some e \<Rightarrow> jobs ctx
       | None \<Rightarrow> filter (\<lambda>j. \<not> has_key (Namespace existing, Name existing) j) (jobs ctx))"
    by (simp add: path succeeded split: option.split)
  from top' marked muts res held show ?thesis by blast
qed

text \<open>
  The job of \<^verbatim>\<open>child-1\<close> has succeeded and the delete call times out.
\<close>

theorem Reconcile_job_succeeded_witness:
  "parents_found (collaborators None (Some (OtherError ''context deadline exceeded'')) (copier_job [] 0 0))
        (cluster (OdooInstanceObject child_1) [root_1, child_1] [copier_job [child_1_ref] 1 0])
        child_1 ''root-1'' = Inr [root_1]
   \<and> store_get (collaborators None (Some (OtherError ''context deadline exceeded'')) (copier_job [] 0 0))
        [copier_job [child_1_ref] 1 0] (''ns'', ''copier-child-1'') = Inr (copier_job [child_1_ref] 1 0)
   \<and> 0 <s Succeeded (Status (copier_job [child_1_ref] 1 0))
   \<and> Top (snd (Reconcile (collaborators None (Some (OtherError ''context deadline exceeded''))
          (copier_job [] 0 0)) the_copier
        (cluster (OdooInstanceObject child_1) [root_1, child_1] [copier_job [child_1_ref] 1 0]))) =
        OdooInstanceObject (SetStatusConditionCopyJobSuccessCreated child_1)
   \<and> mutations (pass_events
        (cluster (OdooInstanceObject child_1) [root_1, child_1] [copier_job [child_1_ref] 1 0])
        (snd (Reconcile (collaborators None (Some (OtherError ''context deadline exceeded''))
           (copier_job [] 0 0)) the_copier
           (cluster (OdooInstanceObject child_1) [root_1, child_1] [copier_job [child_1_ref] 1 0])))) =
        [ConditionSet OdooInstanceStatusConditionTypeCreated CopyJobSucceeded,
         ClientDelete (''ns'', ''copier-child-1'') DeletePropagationBackground]
   \<and> fst (Reconcile (collaborators None (Some (OtherError ''context deadline exceeded''))
          (copier_job [] 0 0)) the_copier
        (cluster (OdooInstanceObject child_1) [root_1, child_1] [copier_job [child_1_ref] 1 0])) =
        Return (\<lparr>Requeue = True, RequeueAfter = 0\<rparr>, Some (OtherError ''context deadline exceeded''))"
proof -
  let ?env = "collaborators None (Some (OtherError ''context deadline exceeded'')) (copier_job [] 0 0)"
  let ?ctx = "cluster (OdooInstanceObject child_1) [root_1, child_1] [copier_job [child_1_ref] 1 0]"
  have top: "Top ?ctx = OdooInstanceObject child_1"
    by (simp add: cluster_def)
  have parent: "ParentHostname (Spec child_1) = Some ''root-1''"
    by (simp add: child_1_def)
  have found: "parents_found ?env ?ctx child_1 ''root-1'' = Inr [root_1]"
    by (simp add: parents_found_def cluster_defs)
  have rendered: "render ?env (OdooInstanceObject child_1) (templatePath the_copier)
      [''FromDatabase'' \<mapsto> Hostname (Spec root_1)] = Inr (JobObject (copier_job [] 0 0))"
    by (simp add: collaborators_def renders_def)
  have looked: "store_get ?env (jobs ?ctx) (Namespace (copier_job [] 0 0), Name (copier_job [] 0 0)) =
      Inr (copier_job [child_1_ref] 1 0)"
    by (simp add: cluster_defs)
  have succeeded: "0 <s Succeeded (Status (copier_job [child_1_ref] 1 0))"
    by (simp add: copier_job_def word_sless_alt)
  have key: "(Namespace (copier_job [] 0 0), Name (copier_job [] 0 0)) = (''ns'', ''copier-child-1'')"
    "(Namespace (copier_job [child_1_ref] 1 0), Name (copier_job [child_1_ref] 1 0)) =
       (''ns'', ''copier-child-1'')"
    by (simp_all add: copier_job_def)
  have held: "jobs ?ctx = [copier_job [child_1_ref] 1 0]"
    by (simp add: cluster_def)
  have delete: "store_delete ?env (jobs ?ctx) (copier_job [child_1_ref] 1 0) =
      Some (OtherError ''context deadline exceeded'')"
    by (simp add: cluster_defs)
  show ?thesis
    using Reconcile_job_succeeded [OF top parent found rendered looked succeeded]
      found looked succeeded key held delete
    by simp
qed

text \<open>
  C7. For an existing copy job with a failure count above zero and a success count of zero,
  \<open>Reconcile\<close> returns a result with no requeue and no error, and changes nothing: the context
  after the pass is the context before it with the lookups and one error line added to the
  trace, so the instance, its conditions and the store are the same, and the pass has no create
  call, no delete call and no condition write.
\<close>

theorem Reconcile_job_failed:
  assumes top: "Top ctx = OdooInstanceObject instance"
    and parent: "ParentHostname (Spec instance) = Some parent"
    and found: "parents_found env ctx instance parent = Inr [p]"
    and rendered: "render env (OdooInstanceObject instance) (templatePath copier)
           [''FromDatabase'' \<mapsto> Hostname (Spec p)] = Inr (JobObject job)"
    and looked: "store_get env (jobs ctx) (Namespace job, Name job) = Inr existing"
    and succeeded: "Succeeded (Status existing) = 0"
    and failed: "0 <s Failed (Status existing)"
  shows "Reconcile env copier ctx =
           (Return (\<lparr>Requeue = False, RequeueAfter = 0\<rparr>, None),
            ctx\<lparr>trace := trace ctx @ lookup_events copier instance parent job @
              [Logged Error (CopierJobFailed (Namespace instance) (Name instance)
                 (Namespace existing) (Name existing))]\<rparr>)
         \<and> mutations (pass_events ctx (snd (Reconcile env copier ctx))) = []"
proof -
  have final: "Reconcile env copier ctx =
      (Return (\<lparr>Requeue = False, RequeueAfter = 0\<rparr>, None),
       ctx\<lparr>trace := trace ctx @ lookup_events copier instance parent job @
         [Logged Error (CopierJobFailed (Namespace instance) (Name instance)
            (Namespace existing) (Name existing))]\<rparr>)"
    by (simp add: reconcile_found [OF top parent found rendered looked] succeeded failed
        Result_zero_def)
  have "mutations (pass_events ctx (snd (Reconcile env copier ctx))) = []"
    by (simp add: final pass_events_def mutations_def lookup_events_def)
  with final show ?thesis by blast
qed

theorem Reconcile_job_failed_witness:
  "parents_found (collaborators None None (copier_job [] 0 0))
        (cluster (OdooInstanceObject child_1) [root_1, child_1] [copier_job [child_1_ref] 0 1])
        child_1 ''root-1'' = Inr [root_1]
   \<and> store_get (collaborators None None (copier_job [] 0 0))
        [copier_job [child_1_ref] 0 1] (''ns'', ''copier-child-1'') = Inr (copier_job [child_1_ref] 0 1)
   \<and> Succeeded (Status (copier_job [child_1_ref] 0 1)) = 0
   \<and> 0 <s Failed (Status (copier_job [child_1_ref] 0 1))
   \<and> Reconcile (collaborators None None (copier_job [] 0 0)) the_copier
        (cluster (OdooInstanceObject child_1) [root_1, child_1] [copier_job [child_1_ref] 0 1]) =
      (Return (\<lparr>Requeue = False, RequeueAfter = 0\<rparr>, None),
       (cluster (OdooInstanceObject child_1) [root_1, child_1] [copier_job [child_1_ref] 0 1])
         \<lparr>trace := lookup_events the_copier child_1 ''root-1'' (copier_job [] 0 0) @
            [Logged Error (CopierJobFailed ''ns'' ''child-1'' ''ns'' ''copier-child-1'')]\<rparr>)
   \<and> mutations (pass_events
        (cluster (OdooInstanceObject child_1) [root_1, child_1] [copier_job [child_1_ref] 0 1])
        (snd (Reconcile (collaborators None None (copier_job [] 0 0)) the_copier
           (cluster (OdooInstanceObject child_1) [root_1, child_1] [copier_job [child_1_ref] 0 1])))) = []"
proof -
  let ?env = "collaborators None None (copier_job [] 0 0)"
  let ?ctx = "cluster (OdooInstanceObject child_1) [root_1, child_1] [copier_job [child_1_ref] 0 1]"
  have top: "Top ?ctx = OdooInstanceObject child_1"
    by (simp add: cluster_def)
  have parent: "ParentHostname (Spec child_1) = Some ''root-1''"
    by (simp add: child_1_def)
  have found: "parents_found ?env ?ctx child_1 ''root-1'' = Inr [root_1]"
    by (simp add: parents_found_def cluster_defs)
  have rendered: "render ?env (OdooInstanceObject child_1) (templatePath the_copier)
      [''FromDatabase'' \<mapsto> Hostname (Spec root_1)] = Inr (JobObject (copier_job [] 0 0))"
    by (simp add: collaborators_def renders_def)
  have looked: "store_get ?env (jobs ?ctx) (Namespace (copier_job [] 0 0), Name (copier_job [] 0 0)) =
      Inr (copier_job [child_1_ref] 0 1)"
    by (simp add: cluster_defs)
  have succeeded: "Succeeded (Status (copier_job [child_1_ref] 0 1)) = 0"
    by (simp add: copier_job_def word_sless_alt)
  have failed: "0 <s Failed (Status (copier_job [child_1_ref] 0 1))"
    by (simp add: copier_job_def word_sless_alt)
  have key: "(Namespace (copier_job [] 0 0), Name (copier_job [] 0 0)) = (''ns'', ''copier-child-1'')"
    by (simp add: copier_job_def)
  have names: "Namespace child_1 = ''ns''" "Name child_1 = ''child-1''"
    "Namespace (copier_job [child_1_ref] 0 1) = ''ns''"
    "Name (copier_job [child_1_ref] 0 1) = ''copier-child-1''"
    by (simp_all add: child_1_def copier_job_def)
  have held: "jobs ?ctx = [copier_job [child_1_ref] 0 1]" "trace ?ctx = []"
    by (simp_all add: cluster_def)
  show ?thesis
    using Reconcile_job_failed [OF top parent found rendered looked succeeded failed, THEN conjunct1]
      Reconcile_job_failed [OF top parent found rendered looked succeeded failed, THEN conjunct2]
      found looked succeeded failed key names held
    by simp
qed

text \<open>
  C10. For an existing copy job with both a success count and a failure count above zero, the
  success branch runs: the "Created" condition is marked as succeeded and delete is called for
  the job. The failure branch adds one error line, after a delete that succeeded, and nothing
  else; a delete that failed returns before it.
\<close>

theorem Reconcile_succeeded_and_failed:
  assumes top: "Top ctx = OdooInstanceObject instance"
    and parent: "ParentHostname (Spec instance) = Some parent"
    and found: "parents_found env ctx instance parent = Inr [p]"
    and rendered: "render env (OdooInstanceObject instance) (templatePath copier)
           [''FromDatabase'' \<mapsto> Hostname (Spec p)] = Inr (JobObject job)"
    and looked: "store_get env (jobs ctx) (Namespace job, Name job) = Inr existing"
    and succeeded: "0 <s Succeeded (Status existing)"
    and failed: "0 <s Failed (Status existing)"
  shows "Top (snd (Reconcile env copier ctx)) =
           OdooInstanceObject (SetStatusConditionCopyJobSuccessCreated instance)
         \<and> pass_events ctx (snd (Reconcile env copier ctx)) =
             lookup_events copier instance parent job @
             [Logged Info (CopierJobSucceeded (Namespace instance) (Name instance)),
              ConditionSet OdooInstanceStatusConditionTypeCreated CopyJobSucceeded,
              Logged (InfoV 2) (DeletingCopierJob (Namespace instance) (Name instance)
                (Namespace existing) (Name existing)),
              ClientDelete (Namespace existing, Name existing) DeletePropagationBackground] @
             (case store_delete env (jobs ctx) existing of
                Some e \<Rightarrow> []
              | None \<Rightarrow> [Logged Error (CopierJobFailed (Namespace instance) (Name instance)
                  (Namespace existing) (Name existing))])
         \<and> fst (Reconcile env copier ctx) =
             (case store_delete env (jobs ctx) existing of
                Some e \<Rightarrow> Return (\<lparr>Requeue = True, RequeueAfter = 0\<rparr>, Some e)
              | None \<Rightarrow> Return (\<lparr>Requeue = False, RequeueAfter = 0\<rparr>, None))
         \<and> jobs (snd (Reconcile env copier ctx)) =
             (case store_delete env (jobs ctx) existing of
                Some e \<Rightarrow> jobs ctx
              | None \<Rightarrow> filter (\<lambda>j. \<not> has_key (Namespace existing, Name existing) j) (jobs ctx))"
proof -
  note path = reconcile_found [OF top parent found rendered looked]
  have top': "Top (snd (Reconcile env copier ctx)) =
      OdooInstanceObject (SetStatusConditionCopyJobSuccessCreated instance)"
    by (simp add: path succeeded split: option.split)
  have evs: "pass_events ctx (snd (Reconcile env copier ctx)) =
      lookup_events copier instance parent job @
      [Logged Info (CopierJobSucceeded (Namespace instance) (Name instance)),
       ConditionSet OdooInstanceStatusConditionTypeCreated CopyJobSucceeded,
       Logged (InfoV 2) (DeletingCopierJob (Namespace instance) (Name instance)
         (Namespace existing) (Name existing)),
       ClientDelete (Namespace existing, Name existing) DeletePropagationBackground] @
      (case store_delete env (jobs ctx) existing of
         Some e \<Rightarrow> []
       | None \<Rightarrow> [Logged Error (CopierJobFailed (Namespace instance) (Name instance)
           (Namespace existing) (Name existing))])"
    by (simp add: path succeeded failed pass_events_def split: option.split)
  have res: "fst (Reconcile env copier ctx) =
      (case store_delete env (jobs ctx) existing of
         Some e \<Rightarrow> Return (\<lparr>Requeue = True, RequeueAfter = 0\<rparr>, Some e)
       | None \<Rightarrow> Return (\<lparr>Requeue = False, RequeueAfter = 0\<rparr>, None))"
    by (simp add: path succeeded Result_zero_def split: option.split)
  have held: "jobs (snd (Reconcile env copier ctx)) =
      (case store_delete env (jobs ctx) existing of
         Some e \<Rightarrow> jobs ctx
       | None \<Rightarrow> filter (\<lambda>j. \<not> has_key (Namespace existing, Name existing) j) (jobs ctx))"
    by (simp add: path succeeded split: option.split)
  from top' evs res held show ?thesis by blast
qed

theorem Reconcile_succeeded_and_failed_witness:
  "parents_found (collaborators None None (copier_job [] 0 0))
        (cluster (OdooInstanceObject child_1) [root_1, child_1] [copier_job [child_1_ref] 1 2])
        child_1 ''root-1'' = Inr [root_1]
   \<and> store_get (collaborators None None (copier_job [] 0 0))
        [copier_job [child_1_ref] 1 2] (''ns'', ''copier-child-1'') = Inr (copier_job [child_1_ref] 1 2)
   \<and> 0 <s Succeeded (Status (copier_job [child_1_ref] 1 2))
   \<and> 0 <s Failed (Status (copier_job [child_1_ref] 1 2))
   \<and> Top (snd (Reconcile (collaborators None None (copier_job [] 0 0)) the_copier
        (cluster (OdooInstanceObject child_1) [root_1, child_1] [copier_job [child_1_ref] 1 2]))) =
        OdooInstanceObject (SetStatusConditionCopyJobSuccessCreated child_1)
   \<and> pass_events
        (cluster (OdooInstanceObject child_1) [root_1, child_1] [copier_job [child_1_ref] 1 2])
        (snd (Reconcile (collaborators None None (copier_job [] 0 0)) the_copier
           (cluster (OdooInstanceObject child_1) [root_1, child_1] [copier_job [child_1_ref] 1 2]))) =
        lookup_events the_copier child_1 ''root-1'' (copier_job [] 0 0) @
        [Logged Info (CopierJobSucceeded ''ns'' ''child-1''),
         ConditionSet OdooInstanceStatusConditionTypeCreated CopyJobSucceeded,
         Logged (InfoV 2) (DeletingCopierJob ''ns'' ''child-1'' ''ns'' ''copier-child-1''),
         ClientDelete (''ns'', ''copier-child-1'') DeletePropagationBackground,
         Logged Error (CopierJobFailed ''ns'' ''child-1'' ''ns'' ''copier-child-1'')]
   \<and> fst (Reconcile (collaborators None None (copier_job [] 0 0)) the_copier
        (cluster (OdooInstanceObject child_1) [root_1, child_1] [copier_job [child_1_ref] 1 2])) =
        Return (\<lparr>Requeue = False, RequeueAfter = 0\<rparr>, None)
   \<and> jobs (snd (Reconcile (collaborators None None (copier_job [] 0 0)) the_copier
        (cluster (OdooInstanceObject child_1) [root_1, child_1] [copier_job [child_1_ref] 1 2]))) = []"
proof -
  let ?env = "collaborators None None (copier_job [] 0 0)"
  let ?ctx = "cluster (OdooInstanceObject child_1) [root_1, child_1] [copier_job [child_1_ref] 1 2]"
  have top: "Top ?ctx = OdooInstanceObject child_1"
    by (simp add: cluster_def)
  have parent: "ParentHostname (Spec child_1) = Some ''root-1''"
    by (simp add: child_1_def)
  have found: "parents_found ?env ?ctx child_1 ''root-1'' = Inr [root_1]"
    by (simp add: parents_found_def cluster_defs)
  have rendered: "render ?env (OdooInstanceObject child_1) (templatePath the_copier)
      [''FromDatabase'' \<mapsto> Hostname (Spec root_1)] = Inr (JobObject (copier_job [] 0 0))"
    by (simp add: collaborators_def renders_def)
  have looked: "store_get ?env (jobs ?ctx) (Namespace (copier_job [] 0 0), Name (copier_job [] 0 0)) =
      Inr (copier_job [child_1_ref] 1 2)"
    by (simp add: cluster_defs)
  have succeeded: "0 <s Succeeded (Status (copier_job [child_1_ref] 1 2))"
    by (simp add: copier_job_def word_sless_alt)
  have failed: "0 <s Failed (Status (copier_job [child_1_ref] 1 2))"
    by (simp add: copier_job_def word_sless_alt)
  have key: "(Namespace (copier_job [] 0 0), Name (copier_job [] 0 0)) = (''ns'', ''copier-child-1'')"
    by (simp add: copier_job_def)
  have names: "Namespace child_1 = ''ns''" "Name child_1 = ''child-1''"
    "Namespace (copier_job [child_1_ref] 1 2) = ''ns''"
    "Name (copier_job [child_1_ref] 1 2) = ''copier-child-1''"
    by (simp_all add: child_1_def copier_job_def)
  have held: "jobs ?ctx = [copier_job [child_1_ref] 1 2]"
    by (simp add: cluster_def)
  have delete: "store_delete ?env (jobs ?ctx) (copier_job [child_1_ref] 1 2) = None"
    by (simp add: cluster_defs)
  have gone: "filter (\<lambda>j. \<not> has_key (''ns'', ''copier-child-1'') j) [copier_job [child_1_ref] 1 2] = []"
    by (simp add: has_key_def copier_job_def)
  show ?thesis
    using Reconcile_succeeded_and_failed [OF top parent found rendered looked succeeded failed]
      found looked succeeded failed key names held delete gone
    by simp
qed


section \<open>Redelivery\<close>

text \<open>
  C8. After a pass that returned without error and created the job, a second pass on the state
  it left, with a lookup that answers from what the store holds and a renderer that does not
  depend on the condition just marked, finds the job in its lookup, calls no create, and does
  not add a job to the store.
\<close>

theorem Reconcile_idempotent:
  assumes first: "Reconcile env copier ctx = (Return (Result_zero, None), ctx1)"
    and created: "list_ex is_create (pass_events ctx ctx1)"
    and consistent: "get_fault env = None"
    and stable: "render env (Top ctx1) = render env (Top ctx)"
  shows "\<not> list_ex is_create (pass_events ctx1 (snd (Reconcile env copier ctx1)))
         \<and> (\<exists>key existing. ClientGet key \<in> set (pass_events ctx1 (snd (Reconcile env copier ctx1)))
               \<and> store_get env (jobs ctx1) key = Inr existing)
         \<and> length (jobs (snd (Reconcile env copier ctx1))) \<le> length (jobs ctx1)"
proof -
  from reconcile_created_inv [OF first created]
  obtain inst parent p job err job' where
    top: "Top ctx = OdooInstanceObject inst"
    and parent: "ParentHostname (Spec inst) = Some parent"
    and found: "parents_found env ctx inst parent = Inr [p]"
    and rendered: "render env (OdooInstanceObject inst) (templatePath copier)
           [''FromDatabase'' \<mapsto> Hostname (Spec p)] = Inr (JobObject job)"
    and looked: "store_get env (jobs ctx) (Namespace job, Name job) = Inl err"
    and not_found: "IsNotFound err"
    and owner: "SetControllerReference (SetStatusConditionCopyJobCreationCreated inst) job
           (Scheme ctx) = Inr job'"
    and create: "store_create env (jobs ctx) job' = None"
    by blast
  let ?marked = "SetStatusConditionCopyJobCreationCreated inst"
  from first reconcile_not_found [OF top parent found rendered looked not_found]
  have ctx1: "ctx1 = ctx\<lparr>Top := OdooInstanceObject ?marked, jobs := jobs ctx @ [job'],
      trace := trace ctx @ lookup_events copier inst parent job @
        [Logged Info (CreatingCopierJob (Namespace inst) (Name inst)
           (Namespace job) (Name job)),
         ConditionSet OdooInstanceStatusConditionTypeCreated CopyJobCreationInitiated,
         ClientCreate job']\<rparr>"
    by (simp add: owner create)
  have same: "Name job' = Name job" "Namespace job' = Namespace job"
    using SetControllerReference_controlled [OF owner] by simp_all
  have top1: "Top ctx1 = OdooInstanceObject ?marked"
    by (simp add: ctx1)
  have parent1: "ParentHostname (Spec ?marked) = Some parent"
    by (simp add: parent SetStatusConditionCopyJobCreationCreated_def)
  have found1: "parents_found env ctx1 ?marked parent = Inr [p]"
    using found by (simp add: ctx1 parents_found_def SetStatusConditionCopyJobCreationCreated_def)
  have rendered1: "render env (OdooInstanceObject ?marked) (templatePath copier)
      [''FromDatabase'' \<mapsto> Hostname (Spec p)] = Inr (JobObject job)"
    using stable rendered by (simp add: top top1)
  have looked1: "store_get env (jobs ctx1) (Namespace job, Name job) = Inr job'"
    using store_get_after_create [OF consistent looked same] by (simp add: ctx1)
  note second = reconcile_found [OF top1 parent1 found1 rendered1 looked1]
  have no_create: "\<not> list_ex is_create (pass_events ctx1 (snd (Reconcile env copier ctx1)))"
    by (simp add: second pass_events_def lookup_events_def split: option.split)
  have "ClientGet (Namespace job, Name job) \<in> set (pass_events ctx1 (snd (Reconcile env copier ctx1)))"
    by (simp add: second pass_events_def lookup_events_def split: option.split)
  with looked1 have observed: "\<exists>key existing.
      ClientGet key \<in> set (pass_events ctx1 (snd (Reconcile env copier ctx1)))
      \<and> store_get env (jobs ctx1) key = Inr existing"
    by blast
  have bound: "length (jobs (snd (Reconcile env copier ctx1))) \<le> length (jobs ctx1)"
    by (simp add: second split: option.split)
  from no_create observed bound show ?thesis by blast
qed

theorem Reconcile_idempotent_witness:
  "Reconcile (collaborators None None (copier_job [] 0 0)) the_copier
       (cluster (OdooInstanceObject child_1) [root_1, child_1] []) =
     (Return (Result_zero, None), cluster_after_create)
   \<and> list_ex is_create
       (pass_events (cluster (OdooInstanceObject child_1) [root_1, child_1] []) cluster_after_create)
   \<and> get_fault (collaborators None None (copier_job [] 0 0)) = None
   \<and> render (collaborators None None (copier_job [] 0 0)) (Top cluster_after_create) =
       render (collaborators None None (copier_job [] 0 0))
         (Top (cluster (OdooInstanceObject child_1) [root_1, child_1] []))
   \<and> \<not> list_ex is_create (pass_events cluster_after_create
         (snd (Reconcile (collaborators None None (copier_job [] 0 0)) the_copier
            cluster_after_create)))
   \<and> (\<exists>key existing.
         ClientGet key \<in> set (pass_events cluster_after_create
           (snd (Reconcile (collaborators None None (copier_job [] 0 0)) the_copier
              cluster_after_create)))
         \<and> store_get (collaborators None None (copier_job [] 0 0)) (jobs cluster_after_create) key =
             Inr existing)
   \<and> length (jobs (snd (Reconcile (collaborators None None (copier_job [] 0 0)) the_copier
         cluster_after_create))) \<le> length (jobs cluster_after_create)"
proof -
  let ?env = "collaborators None None (copier_job [] 0 0)"
  let ?ctx = "cluster (OdooInstanceObject child_1) [root_1, child_1] []"
  have first: "Reconcile ?env the_copier ?ctx = (Return (Result_zero, None), cluster_after_create)"
    by (simp add: pass_defs cluster_defs cluster_after_create_def)
  have created: "list_ex is_create (pass_events ?ctx cluster_after_create)"
    by (simp add: pass_events_def cluster_def cluster_after_create_def)
  have consistent: "get_fault ?env = None"
    by (simp add: collaborators_def)
  have stable: "render ?env (Top cluster_after_create) = render ?env (Top ?ctx)"
    by (simp add: collaborators_def renders_def fun_eq_iff)
  show ?thesis
    using Reconcile_idempotent [OF first created consistent stable] first created consistent stable
    by simp
qed


section \<open>Preconditions of a pass\<close>

text \<open>
  C9. \<open>Reconcile\<close> asserts the type of the object of the context and dereferences the parent
  hostname before anything else. On a root instance, for which \<open>IsReconcilable\<close> returns false,
  it panics with a nil dereference; on an object that is no instance, with a failed type
  assertion; in both cases before any call, the context being unchanged. So a pass that does not
  panic was given an instance with a parent hostname.
\<close>

theorem Reconcile_panics_unless_eligible:
  "(Top ctx = OdooInstanceObject instance \<longrightarrow> ParentHostname (Spec instance) = None \<longrightarrow>
      IsReconcilable ctx = Return False
      \<and> Reconcile env copier ctx = (Panic NilPointerDereference, ctx))
   \<and> ((\<forall>i. Top ctx \<noteq> OdooInstanceObject i) \<longrightarrow>
      Reconcile env copier ctx = (Panic TypeAssertionFailed, ctx))
   \<and> ((\<forall>pn. fst (Reconcile env copier ctx) \<noteq> Panic pn) \<longrightarrow>
      (\<exists>i parent. Top ctx = OdooInstanceObject i \<and> ParentHostname (Spec i) = Some parent))"
proof -
  have root: "Top ctx = OdooInstanceObject instance \<longrightarrow> ParentHostname (Spec instance) = None \<longrightarrow>
      IsReconcilable ctx = Return False
      \<and> Reconcile env copier ctx = (Panic NilPointerDereference, ctx)"
    by (simp add: Reconcile_def IsReconcilable_def)
  have other: "(\<forall>i. Top ctx \<noteq> OdooInstanceObject i) \<longrightarrow>
      Reconcile env copier ctx = (Panic TypeAssertionFailed, ctx)"
    by (cases "Top ctx") (simp_all add: Reconcile_def)
  have only: "(\<forall>pn. fst (Reconcile env copier ctx) \<noteq> Panic pn) \<longrightarrow>
      (\<exists>i parent. Top ctx = OdooInstanceObject i \<and> ParentHostname (Spec i) = Some parent)"
  proof (cases "Top ctx")
    case (OdooInstanceObject i)
    then show ?thesis
      by (cases "ParentHostname (Spec i)") (simp_all add: Reconcile_def)
  qed (simp_all add: Reconcile_def)
  from root other only show ?thesis by blast
qed

theorem Reconcile_panics_unless_eligible_witness:
  "Top (cluster (OdooInstanceObject root_1) [root_1] []) = OdooInstanceObject root_1
   \<and> ParentHostname (Spec root_1) = None
   \<and> IsReconcilable (cluster (OdooInstanceObject root_1) [root_1] []) = Return False
   \<and> Reconcile (collaborators None None (copier_job [] 0 0)) the_copier
        (cluster (OdooInstanceObject root_1) [root_1] []) =
      (Panic NilPointerDereference, cluster (OdooInstanceObject root_1) [root_1] [])
   \<and> Reconcile (collaborators None None (copier_job [] 0 0)) the_copier
        (cluster (JobObject (copier_job [] 0 0)) [root_1] []) =
      (Panic TypeAssertionFailed, cluster (JobObject (copier_job [] 0 0)) [root_1] [])
   \<and> fst (Reconcile (collaborators None None (copier_job [] 0 0)) the_copier
        (cluster (OdooInstanceObject child_1) [child_1] [])) =
        Return (\<lparr>Requeue = True, RequeueAfter = 0\<rparr>, Some (ErrorString ''No parent instance found''))
   \<and> (\<exists>i parent. Top (cluster (OdooInstanceObject child_1) [child_1] []) = OdooInstanceObject i
        \<and> ParentHostname (Spec i) = Some parent)"
proof -
  have root: "Top (cluster (OdooInstanceObject root_1) [root_1] []) = OdooInstanceObject root_1"
    "ParentHostname (Spec root_1) = None"
    by (simp_all add: cluster_def root_1_def)
  have other: "\<forall>i. Top (cluster (JobObject (copier_job [] 0 0)) [root_1] []) \<noteq> OdooInstanceObject i"
    by (simp add: cluster_def)
  have returns: "fst (Reconcile (collaborators None None (copier_job [] 0 0)) the_copier
      (cluster (OdooInstanceObject child_1) [child_1] [])) =
      Return (\<lparr>Requeue = True, RequeueAfter = 0\<rparr>, Some (ErrorString ''No parent instance found''))"
    by (simp add: pass_defs cluster_defs)
  show ?thesis
    using Reconcile_panics_unless_eligible [of "cluster (OdooInstanceObject root_1) [root_1] []" root_1
        "collaborators None None (copier_job [] 0 0)" the_copier]
      Reconcile_panics_unless_eligible [of "cluster (JobObject (copier_job [] 0 0)) [root_1] []" root_1
        "collaborators None None (copier_job [] 0 0)" the_copier]
      Reconcile_panics_unless_eligible [of "cluster (OdooInstanceObject child_1) [child_1] []" child_1
        "collaborators None None (copier_job [] 0 0)" the_copier]
      root other returns
    by simp
qed

end
